theory Spec2Isabelle
  imports Main
begin

section \<open>Data model\<close>

text \<open>
  JavaScript objects that the reconciler treats as opaque (component instances, DOM
  nodes, context objects, functions, element descriptions) are object references.
  A nullable JavaScript value is an \<open>option\<close>, with \<open>None\<close> for \<open>null\<close>.
\<close>

type_synonym ref = nat

text \<open>
  The priority levels of ReactPriorityLevel, which is not among the sources; the
  specification lists them in this order, most urgent first, with \<open>NoWork\<close> for
  "no update pending".
\<close>

datatype PriorityLevel =
    NoWork
  | SynchronousPriority
  | TaskPriority
  | AnimationPriority
  | HighPriority
  | LowPriority
  | OffscreenPriority

text \<open>
  A work node. \<open>stateNode\<close> is what \<open>getPublicRootInstance\<close> and \<open>findHostInstance\<close>
  return: \<open>null\<close>, a component instance, or an output instance created by the adapter
  (an element or a text node). \<open>child\<close> and \<open>sibling\<close> are the first-child and
  next-sibling pointers of the intrusive tree.
\<close>

datatype StateNode =
    NoStateNode
  | ComponentInstance ref
  | HostInstance ref
  | TextInstance ref

datatype Fiber =
  Fiber (stateNode: StateNode) (child: "Fiber option") (sibling: "Fiber option")

text \<open>
  The root object. \<open>current\<close> is the top node of the committed tree; the reconciler
  only passes it on, so its type is a parameter. \<open>context_r\<close> is the field
  \<open>context\<close> of the source.
\<close>

record 'f FiberRoot =
  current :: 'f
  containerInfo :: ref
  context_r :: "ref option"
  pendingContext :: "ref option"

text \<open>A DOM node as far as ReactDOMFiber reads and writes it.\<close>

record DOMNode =
  nodeType :: int
  childNodes :: "ref list"
  documentElement :: "ref option"
  reactRootContainer :: "ref option"

text \<open>
  A function passed as completion callback: one supplied by the caller, or the closure
  that \<open>unmountComponentAtNode\<close> builds, which clears \<open>_reactRootContainer\<close> of a
  container. An optional parameter distinguishes \<open>undefined\<close> from \<open>null\<close>.
\<close>

datatype Function = UserFunction ref | ClearRootContainer ref

datatype CallbackArg = CbUndefined | CbNull | CbFunction Function

text \<open>The payload \<open>{ element }\<close> of a top-level update; the element may be \<open>null\<close>.\<close>

record PartialState =
  element :: "ref option"

text \<open>
  Everything the two modules and their collaborators can read and write: the heap of
  roots (\<open>nextRoot\<close> is the next free address), the DOM nodes, the module-level
  variables of ReactDOMFiber, and \<open>ext\<close>, the state of the modules that are not among
  the sources (scheduler, update queues, event emitter, selection).
\<close>

record ('f, 'x) world =
  roots :: "ref \<Rightarrow> 'f FiberRoot"
  nextRoot :: ref
  nodes :: "ref \<Rightarrow> DOMNode"
  warned :: bool
  eventsEnabled :: "bool option"
  selectionInformation :: "ref option"
  ext :: 'x

text \<open>
  The calls a function of the sources makes on its collaborators and on the DOM, in
  the order it makes them. A call that returns a value is recorded with that value.
\<close>

datatype 'f call =
    GetContextForSubtree "ref option" ref
  | GetPriorityContext PriorityLevel
  | AddTopLevelUpdate 'f PartialState "Function option" PriorityLevel
  | ScheduleUpdate 'f PriorityLevel
  | CreateFiberRoot ref
  | EnterUnbatchedUpdates
  | LeaveUnbatchedUpdates
  | DOMRemoveChild ref ref
  | DOMFocus ref
  | Warning string

record ('f, 'x) state =
  world :: "('f, 'x) world"
  calls :: "'f call list"

text \<open>
  The collaborators that ReactFiberReconciler requires and that are not among the
  sources: the context resolver, which returns a context object, the update queue and
  the scheduler. They receive the whole world, since the scheduler runs reconciliation
  and commits. \<open>isBatchingUpdates\<close> and \<open>setBatchingUpdates\<close> read and write the
  batching-mode flag of the scheduler; \<open>createHostRootFiber\<close> is the top node of an
  empty tree.
\<close>

record ('f, 'x) Env =
  getContextForSubtree :: "ref option \<Rightarrow> ('f, 'x) world \<Rightarrow> ref"
  getPriorityContext :: "('f, 'x) world \<Rightarrow> PriorityLevel"
  addTopLevelUpdate ::
    "'f \<Rightarrow> PartialState \<Rightarrow> Function option \<Rightarrow> PriorityLevel \<Rightarrow> ('f, 'x) world \<Rightarrow> ('f, 'x) world"
  scheduleUpdate :: "'f \<Rightarrow> PriorityLevel \<Rightarrow> ('f, 'x) world \<Rightarrow> ('f, 'x) world"
  isBatchingUpdates :: "('f, 'x) world \<Rightarrow> bool"
  setBatchingUpdates :: "bool \<Rightarrow> ('f, 'x) world \<Rightarrow> ('f, 'x) world"
  createHostRootFiber :: "'f"

definition emit :: "'f call \<Rightarrow> ('f, 'x) state \<Rightarrow> ('f, 'x) state" where
  "emit c s = s\<lparr>calls := calls s @ [c]\<rparr>"

definition on_world ::
  "(('f, 'x) world \<Rightarrow> ('f, 'x) world) \<Rightarrow> ('f, 'x) state \<Rightarrow> ('f, 'x) state" where
  "on_world f s = s\<lparr>world := f (world s)\<rparr>"

definition on_ext :: "('x \<Rightarrow> 'x) \<Rightarrow> ('f, 'x) world \<Rightarrow> ('f, 'x) world" where
  "on_ext f w = w\<lparr>ext := f (ext w)\<rparr>"

definition update_root ::
  "ref \<Rightarrow> ('f FiberRoot \<Rightarrow> 'f FiberRoot) \<Rightarrow> ('f, 'x) world \<Rightarrow> ('f, 'x) world" where
  "update_root r f w = w\<lparr>roots := (roots w)(r := f (roots w r))\<rparr>"

section \<open>ReactFiberReconciler\<close>

text \<open>
  \<open>updateContainer\<close>: the context of the subtree goes to \<open>context\<close> when that field is
  \<open>null\<close> and to \<open>pendingContext\<close> otherwise; then the priority is read, the update is
  enqueued on \<open>container.current\<close> and the same field, read again, is scheduled. The
  callback is passed on as \<open>null\<close> when it is \<open>undefined\<close>. The resolver only reads, so
  its result is named before the test of \<open>context\<close>.
\<close>

definition resolveCallback :: "CallbackArg \<Rightarrow> Function option" where
  "resolveCallback callback =
     (case callback of CbUndefined \<Rightarrow> None | CbNull \<Rightarrow> None | CbFunction f \<Rightarrow> Some f)"

definition updateContainer ::
  "('f, 'x) Env \<Rightarrow> ref option \<Rightarrow> ref \<Rightarrow> ref option \<Rightarrow> CallbackArg
     \<Rightarrow> ('f, 'x) state \<Rightarrow> ('f, 'x) state" where
  "updateContainer E elem container parentComponent callback s =
     (let w = world s;
          ctx = getContextForSubtree E parentComponent w;
          w1 = (if context_r (roots w container) = None
                then update_root container (\<lambda>r. r\<lparr>context_r := Some ctx\<rparr>) w
                else update_root container (\<lambda>r. r\<lparr>pendingContext := Some ctx\<rparr>) w);
          priorityLevel = getPriorityContext E w1;
          fiber1 = current (roots w1 container);
          update = \<lparr>element = elem\<rparr>;
          w2 = addTopLevelUpdate E fiber1 update (resolveCallback callback) priorityLevel w1;
          fiber2 = current (roots w2 container);
          w3 = scheduleUpdate E fiber2 priorityLevel w2
      in \<lparr>world = w3,
          calls = calls s @
            [GetContextForSubtree parentComponent ctx,
             GetPriorityContext priorityLevel,
             AddTopLevelUpdate fiber1 update (resolveCallback callback) priorityLevel,
             ScheduleUpdate fiber2 priorityLevel]\<rparr>)"

text \<open>
  A sequence of \<open>updateContainer\<close> calls on one root, each with its element, parent
  component and callback.
\<close>

fun updateContainers ::
  "('f, 'x) Env \<Rightarrow> ref \<Rightarrow> (ref option \<times> ref option \<times> CallbackArg) list
     \<Rightarrow> ('f, 'x) state \<Rightarrow> ('f, 'x) state" where
  "updateContainers E root [] s = s"
| "updateContainers E root ((elem, parent, callback) # cs) s =
     updateContainers E root cs (updateContainer E elem root parent callback s)"

text \<open>\<open>getPublicRootInstance\<close>: \<open>null\<close> without a child, the child's \<open>stateNode\<close> otherwise.\<close>

definition getPublicRootInstance :: "ref \<Rightarrow> (Fiber, 'x) world \<Rightarrow> StateNode" where
  "getPublicRootInstance container w =
     (let containerFiber = current (roots w container)
      in case child containerFiber of
           None \<Rightarrow> NoStateNode
         | Some c \<Rightarrow> stateNode c)"

text \<open>
  Modelled from the spec: \<open>createFiberRoot\<close> of ReactFiberRoot, which is not among
  the sources. "Allocates a Root bound to containerInfo; initial current tree is empty";
  both context fields start unset.
\<close>

definition createFiberRoot :: "('f, 'x) Env \<Rightarrow> ref \<Rightarrow> 'f FiberRoot" where
  "createFiberRoot E containerInfo' =
     \<lparr>current = createHostRootFiber E, containerInfo = containerInfo',
      context_r = None, pendingContext = None\<rparr>"

text \<open>\<open>createContainer\<close> returns the new root, here its address in the heap of roots.\<close>

definition createContainer ::
  "('f, 'x) Env \<Rightarrow> ref \<Rightarrow> ('f, 'x) state \<Rightarrow> ref \<times> ('f, 'x) state" where
  "createContainer E containerInfo' s =
     (let w = world s; r = nextRoot w
      in (r, \<lparr>world = w\<lparr>roots := (roots w)(r := createFiberRoot E containerInfo'),
                         nextRoot := Suc r\<rparr>,
               calls = calls s @ [CreateFiberRoot containerInfo']\<rparr>))"

text \<open>
  Modelled from the spec: \<open>unbatchedUpdates\<close> of ReactFiberScheduler, which is not
  among the sources. It "forces non-batched (immediate-per-update) scheduling,
  overriding an outer batchedUpdates"; the batching-mode flag is mutated by the wrappers
  only, "with guaranteed restoration on every exit path", so the flag is restored
  whether \<open>fn\<close> returns or throws.
\<close>

definition unbatchedUpdates ::
  "('f, 'x) Env \<Rightarrow> (('f, 'x) state \<Rightarrow> 'a \<times> ('f, 'x) state)
     \<Rightarrow> ('f, 'x) state \<Rightarrow> 'a \<times> ('f, 'x) state" where
  "unbatchedUpdates E fn s =
     (let previousIsBatchingUpdates = isBatchingUpdates E (world s);
          s1 = emit EnterUnbatchedUpdates (on_world (setBatchingUpdates E False) s);
          (a, s2) = fn s1
      in (a, emit LeaveUnbatchedUpdates
               (on_world (setBatchingUpdates E previousIsBatchingUpdates) s2)))"

text \<open>
  Modelled from the spec: \<open>findCurrentHostFiber\<close> of ReactFiberTreeReflection, which is
  not among the sources. It "walks from an arbitrary work node down to the nearest
  descendant that owns a concrete output-instance (skips nodes representing
  non-rendering constructs); returns null if none exists". The walk starts at the node
  itself and visits a node before its children and the children in sibling order; the
  siblings of the starting node are not part of its subtree.
\<close>

definition ownsOutputInstance :: "Fiber \<Rightarrow> bool" where
  "ownsOutputInstance f =
     (case stateNode f of
        HostInstance i \<Rightarrow> True
      | TextInstance t \<Rightarrow> True
      | ComponentInstance c \<Rightarrow> False
      | NoStateNode \<Rightarrow> False)"

fun findCurrentHostFiber :: "Fiber \<Rightarrow> Fiber option"
  and findHostFiberFrom :: "Fiber option \<Rightarrow> Fiber option" where
  "findCurrentHostFiber (Fiber sn ch sb) =
     (if ownsOutputInstance (Fiber sn ch sb) then Some (Fiber sn ch sb)
      else findHostFiberFrom ch)"
| "findHostFiberFrom None = None"
| "findHostFiberFrom (Some (Fiber sn ch sb)) =
     (case findCurrentHostFiber (Fiber sn ch sb) of
        Some h \<Rightarrow> Some h
      | None \<Rightarrow> findHostFiberFrom sb)"

text \<open>\<open>findHostInstance\<close>: \<open>null\<close> when no host fiber is found, its \<open>stateNode\<close> otherwise.\<close>

definition findHostInstance :: "Fiber \<Rightarrow> StateNode" where
  "findHostInstance fiber =
     (case findCurrentHostFiber fiber of
        None \<Rightarrow> NoStateNode
      | Some hostFiber \<Rightarrow> stateNode hostFiber)"

text \<open>
  The work nodes of a subtree in the order of the walk; the list serves to state which
  descendant is the nearest one.
\<close>

fun subtree :: "Fiber \<Rightarrow> Fiber list"
  and subtreeFrom :: "Fiber option \<Rightarrow> Fiber list" where
  "subtree (Fiber sn ch sb) = Fiber sn ch sb # subtreeFrom ch"
| "subtreeFrom None = []"
| "subtreeFrom (Some (Fiber sn ch sb)) = subtree (Fiber sn ch sb) @ subtreeFrom sb"

section \<open>ReactDOMFiber\<close>

text \<open>
  A JavaScript value as far as its truthiness goes; \<open>props.autoFocus\<close> is declared an
  optional boolean, and \<open>!!\<close> is applied to whatever is there.
\<close>

datatype JSValue =
    JSUndefined
  | JSNull
  | JSBoolean bool
  | JSNumber int
  | JSNaN
  | JSString string
  | JSObject ref

fun truthy :: "JSValue \<Rightarrow> bool" where
  "truthy JSUndefined = False"
| "truthy JSNull = False"
| "truthy (JSBoolean b) = b"
| "truthy (JSNumber n) = (n \<noteq> 0)"
| "truthy JSNaN = False"
| "truthy (JSString s) = (s \<noteq> [])"
| "truthy (JSObject r) = True"

record Props =
  autoFocus :: JSValue
  children :: JSValue

text \<open>
  What the entry points throw: the \<open>Error\<close> of \<open>validateContainer\<close>, the violation
  raised by \<open>invariant\<close>, and the \<open>TypeError\<close> of reading a property of \<open>null\<close>.
\<close>

datatype error =
    Error string
  | InvariantViolation string
  | TypeError

text \<open>
  The collaborators of ReactDOMFiber that are not among the sources: the event emitter,
  the input selection, the DOM property setter, the instance map, the component tree
  and the two flags. They act on \<open>ext\<close>. \<open>setEnabled\<close> receives a \<open>?boolean\<close>;
  \<open>getInstanceFromNode\<close> is read for its truthiness only.
\<close>

record 'x DOMEnv =
  isEnabled :: "'x \<Rightarrow> bool"
  setEnabled :: "bool option \<Rightarrow> 'x \<Rightarrow> 'x"
  getSelectionInformation :: "'x \<Rightarrow> ref option"
  restoreSelection :: "ref option \<Rightarrow> 'x \<Rightarrow> 'x"
  setInitialProperties :: "ref \<Rightarrow> string \<Rightarrow> Props \<Rightarrow> ref \<Rightarrow> 'x \<Rightarrow> 'x"
  instanceMapHas :: "ref \<Rightarrow> 'x \<Rightarrow> bool"
  getInstanceFromNode :: "ref \<Rightarrow> 'x \<Rightarrow> bool"
  useFiber :: bool
  DEV :: bool

definition DOCUMENT_NODE :: int where
  "DOCUMENT_NODE = 9"

definition ELEMENT_NODE_TYPE :: int where
  "ELEMENT_NODE_TYPE = 1"

definition DOC_NODE_TYPE :: int where
  "DOC_NODE_TYPE = 9"

definition DOCUMENT_FRAGMENT_NODE_TYPE :: int where
  "DOCUMENT_FRAGMENT_NODE_TYPE = 11"

definition isValidContainer :: "ref option \<Rightarrow> ('f, 'x) world \<Rightarrow> bool" where
  "isValidContainer node w =
     (case node of
        None \<Rightarrow> False
      | Some n \<Rightarrow>
          nodeType (nodes w n) = ELEMENT_NODE_TYPE \<or>
          nodeType (nodes w n) = DOC_NODE_TYPE \<or>
          nodeType (nodes w n) = DOCUMENT_FRAGMENT_NODE_TYPE)"

definition validateContainer :: "ref option \<Rightarrow> ('f, 'x) world \<Rightarrow> error + unit" where
  "validateContainer container w =
     (if \<not> isValidContainer container w
      then Inl (Error ''Target container is not a DOM element.'')
      else Inr ())"

definition firstChild :: "DOMNode \<Rightarrow> ref option" where
  "firstChild n = (case childNodes n of [] \<Rightarrow> None | c # cs \<Rightarrow> Some c)"

definition lastChild :: "DOMNode \<Rightarrow> ref option" where
  "lastChild n = (if childNodes n = [] then None else Some (last (childNodes n)))"

definition getReactRootElementInContainer :: "ref option \<Rightarrow> ('f, 'x) world \<Rightarrow> ref option" where
  "getReactRootElementInContainer container w =
     (case container of
        None \<Rightarrow> None
      | Some c \<Rightarrow>
          if nodeType (nodes w c) = DOC_NODE_TYPE then documentElement (nodes w c)
          else firstChild (nodes w c))"

definition shouldAutoFocusHostComponent :: "string \<Rightarrow> Props \<Rightarrow> bool" where
  "shouldAutoFocusHostComponent type props =
     (if type = ''button'' \<or> type = ''input'' \<or> type = ''select'' \<or> type = ''textarea''
      then truthy (autoFocus props)
      else False)"

text \<open>The two commit hooks of the adapter.\<close>

definition prepareForCommit :: "'x DOMEnv \<Rightarrow> ('f, 'x) world \<Rightarrow> ('f, 'x) world" where
  "prepareForCommit D w =
     (let w1 = w\<lparr>eventsEnabled := Some (isEnabled D (ext w))\<rparr>;
          w2 = w1\<lparr>selectionInformation := getSelectionInformation D (ext w1)\<rparr>
      in on_ext (setEnabled D (Some False)) w2)"

definition resetAfterCommit :: "'x DOMEnv \<Rightarrow> ('f, 'x) world \<Rightarrow> ('f, 'x) world" where
  "resetAfterCommit D w =
     (let w1 = on_ext (restoreSelection D (selectionInformation w)) w;
          w2 = w1\<lparr>selectionInformation := None\<rparr>;
          w3 = on_ext (setEnabled D (eventsEnabled w2)) w2
      in w3\<lparr>eventsEnabled := None\<rparr>)"

text \<open>
  The work between the two commit hooks, as a sequence of steps on the world.
\<close>

fun between ::
  "(('f, 'x) world \<Rightarrow> ('f, 'x) world) list \<Rightarrow> ('f, 'x) world \<Rightarrow> ('f, 'x) world" where
  "between [] w = w"
| "between (g # gs) w = between gs (g w)"

definition finalizeInitialChildren ::
  "'x DOMEnv \<Rightarrow> ref \<Rightarrow> string \<Rightarrow> Props \<Rightarrow> ref \<Rightarrow> ('f, 'x) world \<Rightarrow> bool \<times> ('f, 'x) world" where
  "finalizeInitialChildren D domElement type props rootContainerInstance w =
     (let w1 = on_ext (setInitialProperties D domElement type props rootContainerInstance) w
      in (shouldAutoFocusHostComponent type props, w1))"

definition commitMount ::
  "ref \<Rightarrow> string \<Rightarrow> Props \<Rightarrow> 'f \<Rightarrow> ('f, 'x) state \<Rightarrow> ('f, 'x) state" where
  "commitMount domElement type newProps internalInstanceHandle s =
     emit (DOMFocus domElement) s"

definition warnAboutUnstableUse :: "'x DOMEnv \<Rightarrow> ('f, 'x) state \<Rightarrow> ('f, 'x) state" where
  "warnAboutUnstableUse D s =
     (let s1 = (if warned (world s) \<or> useFiber D then s
                else emit (Warning ''You are using React DOM Fiber which is an experimental renderer. It is likely to have bugs, breaking changes and is unsupported.'') s)
      in on_world (\<lambda>w. w\<lparr>warned := True\<rparr>) s1)"

text \<open>
  \<open>container.removeChild(child)\<close> of the DOM, and the loop of
  \<open>renderSubtreeIntoContainer\<close> that removes the last child while there is one.
\<close>

definition domRemoveChild :: "ref \<Rightarrow> ref \<Rightarrow> ('f, 'x) state \<Rightarrow> ('f, 'x) state" where
  "domRemoveChild parent ch s =
     emit (DOMRemoveChild parent ch)
       (on_world (\<lambda>w. w\<lparr>nodes := (nodes w)
          (parent := (nodes w parent)\<lparr>childNodes := remove1 ch (childNodes (nodes w parent))\<rparr>)\<rparr>) s)"

function clearContent :: "ref \<Rightarrow> ('f, 'x) state \<Rightarrow> ('f, 'x) state" where
  "clearContent container s =
     (case lastChild (nodes (world s) container) of
        None \<Rightarrow> s
      | Some ch \<Rightarrow> clearContent container (domRemoveChild container ch s))"
  by pat_completeness auto
termination
proof (relation "measure (\<lambda>(c, s). length (childNodes (nodes (world s) c)))")
  show "wf (measure (\<lambda>(c, s). length (childNodes (nodes (world s) c))))"
    by simp
next
  fix container :: ref and s :: "('f, 'x) state" and ch
  assume "lastChild (nodes (world s) container) = Some ch"
  then have ne: "childNodes (nodes (world s) container) \<noteq> []"
    and ch: "ch = last (childNodes (nodes (world s) container))"
    by (auto simp: lastChild_def split: if_splits)
  then have "ch \<in> set (childNodes (nodes (world s) container))"
    by simp
  then have "length (remove1 ch (childNodes (nodes (world s) container)))
               < length (childNodes (nodes (world s) container))"
    using ne by (simp add: length_remove1)
  then show "((container, domRemoveChild container ch s), (container, s))
               \<in> measure (\<lambda>(c, s). length (childNodes (nodes (world s) c)))"
    by (simp add: domRemoveChild_def emit_def on_world_def)
qed

declare clearContent.simps [simp del]

definition setReactRootContainer :: "ref \<Rightarrow> ref option \<Rightarrow> ('f, 'x) world \<Rightarrow> ('f, 'x) world" where
  "setReactRootContainer container r w =
     w\<lparr>nodes := (nodes w)(container := (nodes w container)\<lparr>reactRootContainer := r\<rparr>)\<rparr>"

definition renderSubtreeIntoContainer ::
  "(Fiber, 'x) Env \<Rightarrow> ref option \<Rightarrow> ref option \<Rightarrow> ref option \<Rightarrow> CallbackArg
     \<Rightarrow> (Fiber, 'x) state \<Rightarrow> (error + StateNode) \<times> (Fiber, 'x) state" where
  "renderSubtreeIntoContainer E parentComponent children' containerNode callback s =
     (case validateContainer containerNode (world s) of
        Inl e \<Rightarrow> (Inl e, s)
      | Inr u \<Rightarrow>
         (case containerNode of
            None \<Rightarrow> (Inl TypeError, s)
          | Some cn \<Rightarrow>
             (case (if nodeType (nodes (world s) cn) = DOCUMENT_NODE
                    then documentElement (nodes (world s) cn) else Some cn) of
                None \<Rightarrow> (Inl TypeError, s)
              | Some container \<Rightarrow>
                 (case reactRootContainer (nodes (world s) container) of
                    None \<Rightarrow>
                      (let s1 = clearContent container s;
                           (newRoot, s2) = createContainer E container s1;
                           s3 = on_world (setReactRootContainer container (Some newRoot)) s2;
                           (u', s4) = unbatchedUpdates E
                              (\<lambda>t. ((), updateContainer E children' newRoot parentComponent callback t)) s3
                       in (Inr (getPublicRootInstance newRoot (world s4)), s4))
                  | Some root \<Rightarrow>
                      (let s1 = updateContainer E children' root parentComponent callback s
                       in (Inr (getPublicRootInstance root (world s1)), s1))))))"

definition render ::
  "(Fiber, 'x) Env \<Rightarrow> ref option \<Rightarrow> ref option \<Rightarrow> CallbackArg
     \<Rightarrow> (Fiber, 'x) state \<Rightarrow> (error + StateNode) \<times> (Fiber, 'x) state" where
  "render E elem container callback s =
     (case validateContainer container (world s) of
        Inl e \<Rightarrow> (Inl e, s)
      | Inr u \<Rightarrow> renderSubtreeIntoContainer E None elem container callback s)"

definition unstable_renderSubtreeIntoContainer ::
  "(Fiber, 'x) Env \<Rightarrow> 'x DOMEnv \<Rightarrow> ref option \<Rightarrow> ref option \<Rightarrow> ref option \<Rightarrow> CallbackArg
     \<Rightarrow> (Fiber, 'x) state \<Rightarrow> (error + StateNode) \<times> (Fiber, 'x) state" where
  "unstable_renderSubtreeIntoContainer E D parentComponent elem containerNode callback s =
     (if \<not> (case parentComponent of
               None \<Rightarrow> False
             | Some p \<Rightarrow> instanceMapHas D p (ext (world s)))
      then (Inl (InvariantViolation ''parentComponent must be a valid React Component''), s)
      else renderSubtreeIntoContainer E parentComponent elem containerNode callback s)"

text \<open>
  \<open>unmountComponentAtNode\<close> returns \<open>undefined\<close> (here \<open>None\<close>) when the container
  carries no root.
\<close>

definition unmountComponentAtNode ::
  "(Fiber, 'x) Env \<Rightarrow> 'x DOMEnv \<Rightarrow> ref option
     \<Rightarrow> (Fiber, 'x) state \<Rightarrow> (error + StateNode option) \<times> (Fiber, 'x) state" where
  "unmountComponentAtNode E D container s =
     (if \<not> isValidContainer container (world s)
      then (Inl (InvariantViolation
                  ''unmountComponentAtNode(...): Target container is not a DOM element.''), s)
      else
        (let s1 = warnAboutUnstableUse D s
         in case container of
              None \<Rightarrow> (Inl TypeError, s1)
            | Some c \<Rightarrow>
               (case reactRootContainer (nodes (world s1) c) of
                  None \<Rightarrow> (Inr None, s1)
                | Some root \<Rightarrow>
                   (let renderedByDifferentReact =
                          (case getReactRootElementInContainer container (world s1) of
                             None \<Rightarrow> False
                           | Some rootEl \<Rightarrow> \<not> getInstanceFromNode D rootEl (ext (world s1)));
                        s2 = (if DEV D \<and> renderedByDifferentReact
                              then emit (Warning ''unmountComponentAtNode(): The node you're attempting to unmount was rendered by another copy of React.'') s1
                              else s1)
                    in unbatchedUpdates E
                         (\<lambda>t. case renderSubtreeIntoContainer E None None container
                                     (CbFunction (ClearRootContainer c)) t of
                                (Inl e, t') \<Rightarrow> (Inl e, t')
                              | (Inr v, t') \<Rightarrow> (Inr (Some v), t')) s2))))"

section \<open>The scheduler, from the specification\<close>

text \<open>
  Modelled from the spec: ReactFiberScheduler and ReactFiberUpdateQueue, which are not
  among the sources. An update is the record \<open>{ payload, priorityLevel, callback }\<close>
  appended to the queue; a lower priority value is more urgent. A run of the Commit
  Pipeline is recorded with the top node it commits and the updates it applies: the
  adapter's mutation calls for those updates are made during that run.
\<close>

record Update =
  updPayload :: PartialState
  updPriority :: PriorityLevel
  updCallback :: "Function option"

record 'f Commit =
  committedRoot :: 'f
  committedUpdates :: "Update list"

record 'f Scheduler =
  priorityStack :: "PriorityLevel list"
  batching :: bool
  updateQueue :: "('f \<times> Update) list"
  commits :: "'f Commit list"

fun priorityValue :: "PriorityLevel \<Rightarrow> nat" where
  "priorityValue NoWork = 0"
| "priorityValue SynchronousPriority = 1"
| "priorityValue TaskPriority = 2"
| "priorityValue AnimationPriority = 3"
| "priorityValue HighPriority = 4"
| "priorityValue LowPriority = 5"
| "priorityValue OffscreenPriority = 6"

text \<open>
  Modelled from the spec: an update is "consumed by the Work Loop when it processes that
  root at matching-or-higher priority". A run that finds nothing to consume for the
  root is not recorded.
\<close>

definition consumes :: "PriorityLevel \<Rightarrow> 'f \<Rightarrow> 'f \<times> Update \<Rightarrow> bool" where
  "consumes level fiber e =
     (fst e = fiber \<and> priorityValue (updPriority (snd e)) \<le> priorityValue level)"

definition commitPipeline :: "PriorityLevel \<Rightarrow> 'f \<Rightarrow> 'f Scheduler \<Rightarrow> 'f Scheduler" where
  "commitPipeline level fiber sch =
     (let us = map snd (filter (consumes level fiber) (updateQueue sch))
      in if us = [] then sch
         else sch\<lparr>updateQueue := filter (\<lambda>e. \<not> consumes level fiber e) (updateQueue sch),
                  commits := commits sch @ [\<lparr>committedRoot = fiber, committedUpdates = us\<rparr>]\<rparr>)"

text \<open>
  Modelled from the spec: the work done when a batch ends. "All updates enqueued during
  fn are coalesced and processed together once fn returns (single commit for N
  updates)": every root with pending updates gets one run that consumes all of them,
  the roots being taken in the order of their oldest pending update.
\<close>

function performPendingWork :: "'f Scheduler \<Rightarrow> 'f Scheduler" where
  "performPendingWork sch =
     (case updateQueue sch of
        [] \<Rightarrow> sch
      | e # q \<Rightarrow> performPendingWork (commitPipeline OffscreenPriority (fst e) sch))"
  by pat_completeness auto
termination
proof (relation "measure (\<lambda>sch. length (updateQueue sch))")
  show "wf (measure (\<lambda>sch. length (updateQueue sch)))" by simp
next
  fix sch :: "'f Scheduler" and e q
  assume q: "updateQueue sch = e # q"
  have "priorityValue p \<le> 6" for p
    by (cases p) simp_all
  then have c: "consumes OffscreenPriority (fst e) e"
    by (simp add: consumes_def)
  have "length (filter (\<lambda>x. \<not> consumes OffscreenPriority (fst e) x) q) < Suc (length q)"
    by (simp add: less_Suc_eq_le)
  then show "(commitPipeline OffscreenPriority (fst e) sch, sch) \<in> measure (\<lambda>sch. length (updateQueue sch))"
    using q c by (simp add: commitPipeline_def Let_def)
qed

declare performPendingWork.simps [simp del]


text \<open>
  Modelled from the spec: \<open>getPriorityContext\<close> "reads the top of the stack, defaulting
  to a context-sensitive priority when unset (Synchronous if not inside any batching
  call, Task-level if inside one)".
\<close>

definition specGetPriorityContext :: "('f, 'f Scheduler) world \<Rightarrow> PriorityLevel" where
  "specGetPriorityContext w =
     (case priorityStack (ext w) of
        p # ps \<Rightarrow> p
      | [] \<Rightarrow> if batching (ext w) then TaskPriority else SynchronousPriority)"

text \<open>
  Modelled from the spec: \<open>addTopLevelUpdate\<close> appends the update to the queue, under
  the top node it is enqueued on.
\<close>

definition specAddTopLevelUpdate ::
  "'f \<Rightarrow> PartialState \<Rightarrow> Function option \<Rightarrow> PriorityLevel
     \<Rightarrow> ('f, 'f Scheduler) world \<Rightarrow> ('f, 'f Scheduler) world" where
  "specAddTopLevelUpdate fiber partialState callback priorityLevel =
     on_ext (\<lambda>sch. sch\<lparr>updateQueue := updateQueue sch @
        [(fiber, \<lparr>updPayload = partialState, updPriority = priorityLevel,
                  updCallback = callback\<rparr>)]\<rparr>)"

text \<open>
  Modelled from the spec: \<open>scheduleUpdate\<close> "notifies the Work Loop". Synchronous work
  "runs to completion within the call that triggered it"; Task-level work is immediate
  unless a batch suppresses immediate scheduling; work of a deferred priority waits for
  the host's callback, which is outside this model.
\<close>

definition specScheduleUpdate ::
  "'f \<Rightarrow> PriorityLevel \<Rightarrow> ('f, 'f Scheduler) world \<Rightarrow> ('f, 'f Scheduler) world" where
  "specScheduleUpdate fiber priorityLevel w =
     (if priorityLevel = SynchronousPriority
      then on_ext (commitPipeline SynchronousPriority fiber) w
      else if priorityLevel = TaskPriority \<and> \<not> batching (ext w)
      then on_ext (commitPipeline TaskPriority fiber) w
      else w)"

text \<open>
  The collaborators of the reconciler as the specification describes them, over a
  context resolver and the top node given to a new root.
\<close>

definition specEnv ::
  "(ref option \<Rightarrow> ('f, 'f Scheduler) world \<Rightarrow> ref) \<Rightarrow> 'f \<Rightarrow> ('f, 'f Scheduler) Env" where
  "specEnv resolveContext hostRoot =
     \<lparr>getContextForSubtree = resolveContext,
      getPriorityContext = specGetPriorityContext,
      addTopLevelUpdate = specAddTopLevelUpdate,
      scheduleUpdate = specScheduleUpdate,
      isBatchingUpdates = (\<lambda>w. batching (ext w)),
      setBatchingUpdates = (\<lambda>b. on_ext (\<lambda>sch. sch\<lparr>batching := b\<rparr>)),
      createHostRootFiber = hostRoot\<rparr>"

text \<open>
  Modelled from the spec: \<open>performWithPriority(level, fn)\<close> "pushes level, runs fn,
  pops on every exit path"; \<open>batchedUpdates(fn)\<close> "suppresses immediate scheduling" for
  the duration of \<open>fn\<close>, restores the previous mode, and processes the pending updates
  once the outermost batch returns.
\<close>

definition performWithPriority ::
  "PriorityLevel \<Rightarrow> (('f, 'f Scheduler) state \<Rightarrow> 'a \<times> ('f, 'f Scheduler) state)
     \<Rightarrow> ('f, 'f Scheduler) state \<Rightarrow> 'a \<times> ('f, 'f Scheduler) state" where
  "performWithPriority level fn s =
     (let s1 = on_world (on_ext (\<lambda>sch. sch\<lparr>priorityStack := level # priorityStack sch\<rparr>)) s;
          (a, s2) = fn s1
      in (a, on_world (on_ext (\<lambda>sch. sch\<lparr>priorityStack := tl (priorityStack sch)\<rparr>)) s2))"

definition batchedUpdates ::
  "(('f, 'f Scheduler) state \<Rightarrow> 'a \<times> ('f, 'f Scheduler) state)
     \<Rightarrow> ('f, 'f Scheduler) state \<Rightarrow> 'a \<times> ('f, 'f Scheduler) state" where
  "batchedUpdates fn s =
     (let previousIsBatchingUpdates = batching (ext (world s));
          s1 = on_world (on_ext (\<lambda>sch. sch\<lparr>batching := True\<rparr>)) s;
          (a, s2) = fn s1;
          s3 = on_world (on_ext (\<lambda>sch. sch\<lparr>batching := previousIsBatchingUpdates\<rparr>)) s2
      in (a, if previousIsBatchingUpdates then s3
             else on_world (on_ext performPendingWork) s3))"

text \<open>
  The body of a batch as far as the properties below need it: a sequence of
  \<open>updateContainer\<close> calls on one root, each made directly or inside
  \<open>performWithPriority\<close>.
\<close>

record UpdateCall =
  atPriority :: "PriorityLevel option"
  callElement :: "ref option"
  callParent :: "ref option"
  callCallback :: CallbackArg

definition issueUpdate ::
  "('f, 'f Scheduler) Env \<Rightarrow> ref \<Rightarrow> UpdateCall
     \<Rightarrow> ('f, 'f Scheduler) state \<Rightarrow> ('f, 'f Scheduler) state" where
  "issueUpdate E root c s =
     (case atPriority c of
        None \<Rightarrow> updateContainer E (callElement c) root (callParent c) (callCallback c) s
      | Some level \<Rightarrow>
          snd (performWithPriority level
                 (\<lambda>t. ((), updateContainer E (callElement c) root (callParent c) (callCallback c) t)) s))"

definition issueUpdates ::
  "('f, 'f Scheduler) Env \<Rightarrow> ref \<Rightarrow> UpdateCall list
     \<Rightarrow> ('f, 'f Scheduler) state \<Rightarrow> ('f, 'f Scheduler) state" where
  "issueUpdates E root cs s = fold (issueUpdate E root) cs s"

text \<open>
  The update that a call of the batch enqueues, given the ambient priority, and the
  runs of the Commit Pipeline that committed a given top node.
\<close>

definition enqueuedUpdate :: "PriorityLevel \<Rightarrow> UpdateCall \<Rightarrow> Update" where
  "enqueuedUpdate ambient c =
     \<lparr>updPayload = \<lparr>element = callElement c\<rparr>,
      updPriority = (case atPriority c of Some level \<Rightarrow> level | None \<Rightarrow> ambient),
      updCallback = resolveCallback (callCallback c)\<rparr>"

definition commitsOf :: "'f \<Rightarrow> 'f Scheduler \<Rightarrow> 'f Commit list" where
  "commitsOf fiber sch = filter (\<lambda>c. committedRoot c = fiber) (commits sch)"

definition pendingOf :: "'f \<Rightarrow> 'f Scheduler \<Rightarrow> Update list" where
  "pendingOf fiber sch = map snd (filter (\<lambda>e. fst e = fiber) (updateQueue sch))"

text \<open>
  Modelled from the spec: what a commit does to the context of a root. The root holds
  "an active application-level context value" and "a pending (not-yet-applied) context
  value", and a later \<open>updateContainer\<close> call "leaves root.context unchanged until that
  update commits": the commit makes the pending context, if there is one, the active
  one. \<open>committingScheduleUpdate\<close> is \<open>scheduleUpdate\<close> with that effect, on every
  root whose top node the run commits.
\<close>

definition applyPendingContext :: "'f FiberRoot \<Rightarrow> 'f FiberRoot" where
  "applyPendingContext root =
     (case pendingContext root of
        None \<Rightarrow> root
      | Some c \<Rightarrow> root\<lparr>context_r := Some c, pendingContext := None\<rparr>)"

definition committingScheduleUpdate ::
  "'f \<Rightarrow> PriorityLevel \<Rightarrow> ('f, 'f Scheduler) world \<Rightarrow> ('f, 'f Scheduler) world" where
  "committingScheduleUpdate fiber priorityLevel w =
     (let w' = specScheduleUpdate fiber priorityLevel w
      in if commits (ext w') = commits (ext w) then w'
         else w'\<lparr>roots := (\<lambda>r. if current (roots w' r) = fiber
                                then applyPendingContext (roots w' r)
                                else roots w' r)\<rparr>)"

definition committingEnv ::
  "(ref option \<Rightarrow> ('f, 'f Scheduler) world \<Rightarrow> ref) \<Rightarrow> 'f \<Rightarrow> ('f, 'f Scheduler) Env" where
  "committingEnv resolveContext hostRoot =
     (specEnv resolveContext hostRoot)\<lparr>scheduleUpdate := committingScheduleUpdate\<rparr>"

section \<open>Concrete instances\<close>

text \<open>
  A scheduler at rest, a world with one element container (node 0, with two children)
  among nodes that are no containers, and the collaborators of the specification with a
  resolver that maps no parent to context 0.
\<close>

definition idleScheduler :: "'f Scheduler" where
  "idleScheduler = \<lparr>priorityStack = [], batching = False, updateQueue = [], commits = []\<rparr>"

definition exampleNode :: "int \<Rightarrow> ref list \<Rightarrow> DOMNode" where
  "exampleNode t cs = \<lparr>nodeType = t, childNodes = cs, documentElement = None, reactRootContainer = None\<rparr>"

definition exampleWorld :: "Fiber \<Rightarrow> (Fiber, Fiber Scheduler) world" where
  "exampleWorld topNode =
     \<lparr>roots = (\<lambda>r. \<lparr>current = topNode, containerInfo = r, context_r = None, pendingContext = None\<rparr>),
      nextRoot = 1,
      nodes = (\<lambda>n. if n = 0 then exampleNode 1 [5, 6] else exampleNode 3 []),
      warned = False, eventsEnabled = None, selectionInformation = None,
      ext = idleScheduler\<rparr>"

definition exampleEnv :: "(Fiber, Fiber Scheduler) Env" where
  "exampleEnv = specEnv (\<lambda>p w. case p of None \<Rightarrow> 0 | Some c \<Rightarrow> Suc c) (Fiber NoStateNode None None)"

text \<open>The same collaborators with the scheduler whose commits apply the pending context.\<close>

definition exampleCommittingEnv :: "(Fiber, Fiber Scheduler) Env" where
  "exampleCommittingEnv =
     committingEnv (\<lambda>p w. case p of None \<Rightarrow> 0 | Some c \<Rightarrow> Suc c) (Fiber NoStateNode None None)"

text \<open>
  The state around that world before any call, and collaborators of ReactDOMFiber that
  do nothing, with the development checks on and the feature flag off.
\<close>

definition exampleState :: "Fiber \<Rightarrow> (Fiber, Fiber Scheduler) state" where
  "exampleState topNode = \<lparr>world = exampleWorld topNode, calls = []\<rparr>"

definition exampleDOMEnv :: "(Fiber Scheduler) DOMEnv" where
  "exampleDOMEnv =
     \<lparr>isEnabled = (\<lambda>x. True),
      setEnabled = (\<lambda>b x. x),
      getSelectionInformation = (\<lambda>x. None),
      restoreSelection = (\<lambda>i x. x),
      setInitialProperties = (\<lambda>e t p c x. x),
      instanceMapHas = (\<lambda>p x. True),
      getInstanceFromNode = (\<lambda>n x. True),
      useFiber = False,
      DEV = True\<rparr>"

text \<open>
  An event emitter that is just its flag (\<open>setEnabled\<close> stores \<open>!!enabled\<close>), and a
  world around it in which events are enabled.
\<close>

definition flagDOMEnv :: "bool DOMEnv" where
  "flagDOMEnv =
     \<lparr>isEnabled = (\<lambda>x. x),
      setEnabled = (\<lambda>b x. b = Some True),
      getSelectionInformation = (\<lambda>x. Some 2),
      restoreSelection = (\<lambda>i x. x),
      setInitialProperties = (\<lambda>e t p c x. x),
      instanceMapHas = (\<lambda>p x. True),
      getInstanceFromNode = (\<lambda>n x. True),
      useFiber = True,
      DEV = False\<rparr>"

definition flagWorld :: "(Fiber, bool) world" where
  "flagWorld =
     \<lparr>roots = (\<lambda>r. \<lparr>current = Fiber NoStateNode None None, containerInfo = r,
                     context_r = None, pendingContext = None\<rparr>),
      nextRoot = 0,
      nodes = (\<lambda>n. exampleNode 1 []),
      warned = False, eventsEnabled = None, selectionInformation = None,
      ext = True\<rparr>"

section \<open>Updating a container\<close>

lemma updateContainers_append:
  "updateContainers E r (xs @ ys) s = updateContainers E r ys (updateContainers E r xs s)"
  by (induction xs arbitrary: s) auto

text \<open>
  One call, whatever the collaborators do: the queue and the scheduler run on the world
  in which the call has written one context field of the root.
\<close>

lemma updateContainer_at_enqueue:
  "world (updateContainer E e r pc cb s) =
     (let root0 = roots (world s) r;
          ctx = getContextForSubtree E pc (world s);
          w1 = (world s)\<lparr>roots := (roots (world s))
                 (r := (if context_r root0 = None
                        then root0\<lparr>context_r := Some ctx\<rparr>
                        else root0\<lparr>pendingContext := Some ctx\<rparr>))\<rparr>;
          p = getPriorityContext E w1;
          w2 = addTopLevelUpdate E (current root0) \<lparr>element = e\<rparr> (resolveCallback cb) p w1
      in scheduleUpdate E (current (roots w2 r)) p w2)"
  by (simp add: updateContainer_def Let_def update_root_def)

lemma updateContainers_context_kept:
  assumes add: "\<And>f u cb p w. context_r (roots w r) \<noteq> None \<Longrightarrow>
                  context_r (roots (addTopLevelUpdate E f u cb p w) r) \<noteq> None"
    and sch: "\<And>f p w. context_r (roots w r) \<noteq> None \<Longrightarrow>
                  context_r (roots (scheduleUpdate E f p w) r) \<noteq> None"
  shows "pre \<noteq> [] \<Longrightarrow> context_r (roots (world (updateContainers E r pre s)) r) \<noteq> None"
proof (induction pre arbitrary: s rule: rev_induct)
  case Nil
  then show ?case by simp
next
  case (snoc c pre)
  obtain e pc cb where c: "c = (e, pc, cb)" by (cases c)
  let ?s0 = "updateContainers E r pre s"
  let ?root0 = "roots (world ?s0) r"
  let ?ctx = "getContextForSubtree E pc (world ?s0)"
  let ?w1 = "(world ?s0)\<lparr>roots := (roots (world ?s0))
                 (r := (if context_r ?root0 = None
                        then ?root0\<lparr>context_r := Some ?ctx\<rparr>
                        else ?root0\<lparr>pendingContext := Some ?ctx\<rparr>))\<rparr>"
  have "context_r (roots ?w1 r) \<noteq> None" by simp
  then have "context_r (roots (world (updateContainer E e r pc cb ?s0)) r) \<noteq> None"
    unfolding updateContainer_at_enqueue Let_def by (intro sch add)
  then show ?case
    by (simp add: updateContainers_append c)
qed

text \<open>
  Claim C1, refuted as stated: with the scheduler of the specification, a call outside
  any batch is at Synchronous priority and its update commits inside the call. After
  the second of two calls on a fresh root, \<open>context\<close> is the newly resolved context
  (5, not the 0 of the first call) and \<open>pendingContext\<close> is \<open>null\<close>.
\<close>

theorem updateContainer_context_committed:
  "context_r (roots (world
      (updateContainers exampleCommittingEnv 0 [(Some 1, None, CbUndefined)]
         (exampleState (Fiber NoStateNode None None)))) 0) = Some 0
   \<and> context_r (roots (world
        (updateContainer exampleCommittingEnv (Some 2) 0 (Some 4) CbNull
           (updateContainers exampleCommittingEnv 0 [(Some 1, None, CbUndefined)]
              (exampleState (Fiber NoStateNode None None))))) 0) = Some 5
   \<and> pendingContext (roots (world
        (updateContainer exampleCommittingEnv (Some 2) 0 (Some 4) CbNull
           (updateContainers exampleCommittingEnv 0 [(Some 1, None, CbUndefined)]
              (exampleState (Fiber NoStateNode None None))))) 0) = None"
  by (simp add: updateContainer_def Let_def exampleCommittingEnv_def committingEnv_def
        specEnv_def committingScheduleUpdate_def specScheduleUpdate_def
        specAddTopLevelUpdate_def specGetPriorityContext_def commitPipeline_def consumes_def
        applyPendingContext_def update_root_def on_ext_def exampleState_def exampleWorld_def
        idleScheduler_def)


text \<open>
  Claim C1, amended: for every root whose \<open>context\<close> is \<open>null\<close> and every sequence of
  \<open>updateContainer\<close> calls on it, with an update queue and a scheduler that never
  clear a context once it is set: the first call writes the resolved context to
  \<open>context\<close> and leaves \<open>pendingContext\<close> as it was, every later call writes the newly
  resolved context to \<open>pendingContext\<close> and leaves \<open>context\<close> as it was, and this is
  the state in which the call enqueues its update. The queue and the scheduler run on
  that state, so \<open>context\<close> stays unchanged only until that update commits, which may
  happen inside the call.
\<close>

theorem updateContainer_context_at_enqueue:
  assumes add: "\<And>f u cb p w. context_r (roots w r) \<noteq> None \<Longrightarrow>
                  context_r (roots (addTopLevelUpdate E f u cb p w) r) \<noteq> None"
    and sch: "\<And>f p w. context_r (roots w r) \<noteq> None \<Longrightarrow>
                  context_r (roots (scheduleUpdate E f p w) r) \<noteq> None"
    and fresh: "context_r (roots (world s) r) = None"
  shows "let s0 = updateContainers E r pre s;
             root0 = roots (world s0) r;
             ctx = getContextForSubtree E pc (world s0);
             w1 = (world s0)\<lparr>roots := (roots (world s0))
                    (r := (if pre = []
                           then root0\<lparr>context_r := Some ctx\<rparr>
                           else root0\<lparr>pendingContext := Some ctx\<rparr>))\<rparr>;
             p = getPriorityContext E w1;
             w2 = addTopLevelUpdate E (current root0) \<lparr>element = e\<rparr> (resolveCallback cb) p w1
         in world (updateContainer E e r pc cb s0) = scheduleUpdate E (current (roots w2 r)) p w2
          \<and> (pre = [] \<longrightarrow>
                context_r (roots w1 r) = Some ctx \<and>
                pendingContext (roots w1 r) = pendingContext root0)
          \<and> (pre \<noteq> [] \<longrightarrow>
                pendingContext (roots w1 r) = Some ctx \<and>
                context_r (roots w1 r) = context_r root0)"
proof -
  have "(context_r (roots (world (updateContainers E r pre s)) r) = None) = (pre = [])"
    using fresh updateContainers_context_kept[OF add sch, of pre s] by (cases "pre = []") auto
  then show ?thesis
    by (simp add: updateContainer_at_enqueue[of E e r pc cb "updateContainers E r pre s"] Let_def)
qed

lemma committingEnv_keeps_context:
  "context_r (roots w r) \<noteq> None \<Longrightarrow>
     context_r (roots (addTopLevelUpdate (committingEnv resolve hostRoot) f u cb p w) r) \<noteq> None"
  "context_r (roots w r) \<noteq> None \<Longrightarrow>
     context_r (roots (scheduleUpdate (committingEnv resolve hostRoot) f p w) r) \<noteq> None"
  by (auto simp: committingEnv_def specEnv_def specAddTopLevelUpdate_def
        committingScheduleUpdate_def specScheduleUpdate_def applyPendingContext_def
        on_ext_def Let_def split: option.splits)

theorem updateContainer_context_at_enqueue_witness:
  "context_r (roots (world (exampleState (Fiber NoStateNode None None))) 0) = None
   \<and> world (updateContainer exampleCommittingEnv (Some 2) 0 (Some 4) CbNull
        (updateContainers exampleCommittingEnv 0 [(Some 1, None, CbUndefined)]
           (exampleState (Fiber NoStateNode None None)))) =
       (let s0 = updateContainers exampleCommittingEnv 0 [(Some 1, None, CbUndefined)]
                   (exampleState (Fiber NoStateNode None None));
            w1 = (world s0)\<lparr>roots := (roots (world s0))
                   (0 := (roots (world s0) 0)\<lparr>pendingContext := Some 5\<rparr>)\<rparr>;
            p = getPriorityContext exampleCommittingEnv w1;
            w2 = addTopLevelUpdate exampleCommittingEnv (current (roots (world s0) 0))
                   \<lparr>element = Some 2\<rparr> None p w1
        in scheduleUpdate exampleCommittingEnv (current (roots w2 0)) p w2)"
proof -
  let ?s = "exampleState (Fiber NoStateNode None None)"
  have fresh: "context_r (roots (world ?s) 0) = None"
    by (simp add: exampleState_def exampleWorld_def)
  have r0: "getContextForSubtree exampleCommittingEnv pc w = (case pc of None \<Rightarrow> 0 | Some c \<Rightarrow> Suc c)"
    for pc w
    by (simp add: exampleCommittingEnv_def committingEnv_def specEnv_def)
  have add: "context_r (roots w 0) \<noteq> None \<Longrightarrow>
      context_r (roots (addTopLevelUpdate exampleCommittingEnv f u cb p w) 0) \<noteq> None"
    for f u cb p w
    unfolding exampleCommittingEnv_def by (rule committingEnv_keeps_context)
  have sch: "context_r (roots w 0) \<noteq> None \<Longrightarrow>
      context_r (roots (scheduleUpdate exampleCommittingEnv f p w) 0) \<noteq> None"
    for f p w
    unfolding exampleCommittingEnv_def by (rule committingEnv_keeps_context)
  show ?thesis
    using fresh
      updateContainer_context_at_enqueue
        [OF add sch fresh, of "[(Some 1, None, CbUndefined)]" "Some 4" "Some 2" CbNull]
    by (simp add: Let_def r0 resolveCallback_def)
qed

lemma exampleEnv_frame:
  "roots (addTopLevelUpdate exampleEnv f u cb p w) = roots w"
  "roots (scheduleUpdate exampleEnv f p w) = roots w"
  by (simp_all add: exampleEnv_def specEnv_def specAddTopLevelUpdate_def
        specScheduleUpdate_def on_ext_def)

text \<open>
  Claim C2: every call to \<open>updateContainer\<close> resolves the context, reads the ambient
  priority once, enqueues exactly one update on the root's top node, carrying the
  element, the callback (\<open>null\<close> when none was given) and that priority, and then
  calls \<open>scheduleUpdate\<close> on the same node with the same priority, in that order; its
  effect is that of the enqueueing followed by that of the scheduling. The top node is
  read again for \<open>scheduleUpdate\<close>; enqueueing is taken not to replace it.
\<close>

theorem updateContainer_calls:
  assumes add: "\<And>f u c p w. current (roots (addTopLevelUpdate E f u c p w) r) = current (roots w r)"
  shows "\<exists>ctx p w1.
           calls (updateContainer E e r pc cb s) =
             calls s @
               [GetContextForSubtree pc ctx,
                GetPriorityContext p,
                AddTopLevelUpdate (current (roots (world s) r)) \<lparr>element = e\<rparr>
                  (case cb of CbFunction f \<Rightarrow> Some f | CbNull \<Rightarrow> None | CbUndefined \<Rightarrow> None) p,
                ScheduleUpdate (current (roots (world s) r)) p]
         \<and> ctx = getContextForSubtree E pc (world s)
         \<and> p = getPriorityContext E w1
         \<and> world (updateContainer E e r pc cb s) =
             scheduleUpdate E (current (roots (world s) r)) p
               (addTopLevelUpdate E (current (roots (world s) r)) \<lparr>element = e\<rparr>
                  (case cb of CbFunction f \<Rightarrow> Some f | CbNull \<Rightarrow> None | CbUndefined \<Rightarrow> None) p w1)"
proof -
  define w1 where "w1 =
     (if context_r (roots (world s) r) = None
      then update_root r (\<lambda>x. x\<lparr>context_r := Some (getContextForSubtree E pc (world s))\<rparr>) (world s)
      else update_root r (\<lambda>x. x\<lparr>pendingContext := Some (getContextForSubtree E pc (world s))\<rparr>) (world s))"
  have cur: "current (roots w1 r) = current (roots (world s) r)"
    by (simp add: w1_def update_root_def)
  have cb: "resolveCallback cb = (case cb of CbFunction f \<Rightarrow> Some f | CbNull \<Rightarrow> None | CbUndefined \<Rightarrow> None)"
    by (simp add: resolveCallback_def split: CallbackArg.splits)
  have "calls (updateContainer E e r pc cb s) =
             calls s @
               [GetContextForSubtree pc (getContextForSubtree E pc (world s)),
                GetPriorityContext (getPriorityContext E w1),
                AddTopLevelUpdate (current (roots (world s) r)) \<lparr>element = e\<rparr>
                  (resolveCallback cb) (getPriorityContext E w1),
                ScheduleUpdate (current (roots (world s) r)) (getPriorityContext E w1)]"
    unfolding updateContainer_def Let_def w1_def[symmetric] by (simp add: cur add)
  moreover have "world (updateContainer E e r pc cb s) =
             scheduleUpdate E (current (roots (world s) r)) (getPriorityContext E w1)
               (addTopLevelUpdate E (current (roots (world s) r)) \<lparr>element = e\<rparr>
                  (resolveCallback cb) (getPriorityContext E w1) w1)"
    unfolding updateContainer_def Let_def w1_def[symmetric] by (simp add: cur add)
  ultimately show ?thesis
    unfolding cb by blast
qed

theorem updateContainer_calls_witness:
  "calls (updateContainer exampleEnv (Some 1) 0 None (CbFunction (UserFunction 3))
            (exampleState (Fiber NoStateNode None None))) =
     [GetContextForSubtree None 0,
      GetPriorityContext SynchronousPriority,
      AddTopLevelUpdate (Fiber NoStateNode None None) \<lparr>element = Some 1\<rparr>
        (Some (UserFunction 3)) SynchronousPriority,
      ScheduleUpdate (Fiber NoStateNode None None) SynchronousPriority]"
proof -
  let ?s = "exampleState (Fiber NoStateNode None None)"
  have frame: "current (roots (addTopLevelUpdate exampleEnv f u c p w) 0) = current (roots w 0)"
    for f u c p w
    by (simp add: exampleEnv_frame)
  obtain ctx p w1 where
    c: "calls (updateContainer exampleEnv (Some 1) 0 None (CbFunction (UserFunction 3)) ?s) =
          calls ?s @
            [GetContextForSubtree None ctx, GetPriorityContext p,
             AddTopLevelUpdate (current (roots (world ?s) 0)) \<lparr>element = Some 1\<rparr>
               (Some (UserFunction 3)) p,
             ScheduleUpdate (current (roots (world ?s) 0)) p]"
    and ctx: "ctx = getContextForSubtree exampleEnv None (world ?s)"
    and p: "p = getPriorityContext exampleEnv w1"
    using updateContainer_calls
      [of exampleEnv 0 "Some 1" None "CbFunction (UserFunction 3)" ?s, OF frame]
    by auto
  from c have "GetPriorityContext p \<in> set (calls (updateContainer exampleEnv (Some 1) 0 None (CbFunction (UserFunction 3)) ?s))"
    by simp
  then have "p = SynchronousPriority"
    by (simp add: updateContainer_def Let_def exampleState_def exampleWorld_def exampleEnv_def
          specEnv_def specGetPriorityContext_def update_root_def idleScheduler_def)
  with c ctx show ?thesis
    by (simp add: exampleState_def exampleWorld_def exampleEnv_def specEnv_def)
qed

section \<open>Batched updates\<close>

lemma consumes_Offscreen: "consumes OffscreenPriority g = (\<lambda>e. fst e = g)"
proof -
  have "priorityValue p \<le> 6" for p by (cases p) simp_all
  then show ?thesis by (simp add: consumes_def fun_eq_iff)
qed

lemma commitPipeline_Offscreen:
  "commitPipeline OffscreenPriority g sch =
     (if pendingOf g sch = [] then sch
      else sch\<lparr>updateQueue := filter (\<lambda>e. fst e \<noteq> g) (updateQueue sch),
               commits := commits sch @
                 [\<lparr>committedRoot = g, committedUpdates = pendingOf g sch\<rparr>]\<rparr>)"
  by (simp add: commitPipeline_def Let_def consumes_Offscreen pendingOf_def)

lemma performPendingWork_commitsOf:
  "commitsOf f (performPendingWork sch) =
     commitsOf f sch @
       (if pendingOf f sch = [] then []
        else [\<lparr>committedRoot = f, committedUpdates = pendingOf f sch\<rparr>])"
proof (induction sch rule: performPendingWork.induct)
  case (1 sch)
  show ?case
  proof (cases "updateQueue sch")
    case Nil
    then show ?thesis
      by (subst performPendingWork.simps) (simp add: pendingOf_def)
  next
    case (Cons e q)
    let ?g = "fst e"
    let ?sch' = "commitPipeline OffscreenPriority ?g sch"
    have step: "performPendingWork sch = performPendingWork ?sch'"
      using Cons by (subst performPendingWork.simps) simp
    have ne: "pendingOf ?g sch \<noteq> []"
      using Cons by (simp add: pendingOf_def)
    have sch': "?sch' = sch\<lparr>updateQueue := filter (\<lambda>e. fst e \<noteq> ?g) (updateQueue sch),
               commits := commits sch @
                 [\<lparr>committedRoot = ?g, committedUpdates = pendingOf ?g sch\<rparr>]\<rparr>"
      using ne by (simp add: commitPipeline_Offscreen)
    have IH: "commitsOf f (performPendingWork ?sch') =
                commitsOf f ?sch' @
                  (if pendingOf f ?sch' = [] then []
                   else [\<lparr>committedRoot = f, committedUpdates = pendingOf f ?sch'\<rparr>])"
      using "1.IH"[OF Cons] .
    show ?thesis
    proof (cases "?g = f")
      case True
      have "pendingOf f ?sch' = []"
        unfolding sch' using True by (simp add: pendingOf_def filter_empty_conv)
      moreover have "commitsOf f ?sch' =
          commitsOf f sch @ [\<lparr>committedRoot = f, committedUpdates = pendingOf f sch\<rparr>]"
        unfolding sch' using True by (simp add: commitsOf_def)
      ultimately show ?thesis
        using IH ne True by (simp add: step)
    next
      case False
      have "filter (\<lambda>e. fst e = f) (filter (\<lambda>e. fst e \<noteq> ?g) (updateQueue sch)) =
            filter (\<lambda>e. fst e = f) (updateQueue sch)"
        using False by (auto intro: filter_cong)
      then have "pendingOf f ?sch' = pendingOf f sch"
        unfolding sch' by (simp add: pendingOf_def)
      moreover have "commitsOf f ?sch' = commitsOf f sch"
        unfolding sch' using False by (simp add: commitsOf_def)
      ultimately show ?thesis
        using IH by (simp add: step)
    qed
  qed
qed

lemma specEnv_fields:
  "getContextForSubtree (specEnv resolve hostRoot) = resolve"
  "getPriorityContext (specEnv resolve hostRoot) = specGetPriorityContext"
  "addTopLevelUpdate (specEnv resolve hostRoot) = specAddTopLevelUpdate"
  "scheduleUpdate (specEnv resolve hostRoot) = specScheduleUpdate"
  by (simp_all add: specEnv_def)

lemma update_root_ext: "ext (update_root r g w) = ext w"
  by (simp add: update_root_def)

lemma update_root_current:
  "current (roots (update_root r (\<lambda>x. x\<lparr>context_r := a\<rparr>) w) r') = current (roots w r')"
  "current (roots (update_root r (\<lambda>x. x\<lparr>pendingContext := a\<rparr>) w) r') = current (roots w r')"
  by (simp_all add: update_root_def)

lemma specGetPriorityContext_ext:
  "ext w' = ext w \<Longrightarrow> specGetPriorityContext w' = specGetPriorityContext w"
  by (simp add: specGetPriorityContext_def)

lemma specAddTopLevelUpdate_effect:
  "ext (specAddTopLevelUpdate f u cb p w) =
     (ext w)\<lparr>updateQueue := updateQueue (ext w) @
        [(f, \<lparr>updPayload = u, updPriority = p, updCallback = cb\<rparr>)]\<rparr>"
  "roots (specAddTopLevelUpdate f u cb p w) = roots w"
  by (simp_all add: specAddTopLevelUpdate_def on_ext_def)

lemma specScheduleUpdate_deferred:
  "p \<noteq> SynchronousPriority \<Longrightarrow> batching (ext w) \<Longrightarrow> specScheduleUpdate f p w = w"
  by (simp add: specScheduleUpdate_def)

lemma specScheduleUpdate_roots:
  "roots (specScheduleUpdate f p w) = roots w"
  by (simp add: specScheduleUpdate_def on_ext_def)

lemma updateContainer_specEnv_world:
  "world (updateContainer (specEnv resolve hostRoot) e r pc cb t) =
     (let w1 = (if context_r (roots (world t) r) = None
                then update_root r (\<lambda>x. x\<lparr>context_r := Some (resolve pc (world t))\<rparr>) (world t)
                else update_root r (\<lambda>x. x\<lparr>pendingContext := Some (resolve pc (world t))\<rparr>) (world t));
          p = specGetPriorityContext (world t);
          f = current (roots (world t) r)
      in specScheduleUpdate f p
           (specAddTopLevelUpdate f \<lparr>element = e\<rparr> (resolveCallback cb) p w1))"
proof -
  let ?w1 = "(if context_r (roots (world t) r) = None
                then update_root r (\<lambda>x. x\<lparr>context_r := Some (resolve pc (world t))\<rparr>) (world t)
                else update_root r (\<lambda>x. x\<lparr>pendingContext := Some (resolve pc (world t))\<rparr>) (world t))"
  have e: "ext ?w1 = ext (world t)" by (simp add: update_root_ext)
  have c: "current (roots ?w1 r) = current (roots (world t) r)"
    by (simp add: update_root_current)
  have p: "specGetPriorityContext ?w1 = specGetPriorityContext (world t)"
    using e by (rule specGetPriorityContext_ext)
  show ?thesis
    unfolding updateContainer_def specEnv_fields Let_def
    by (simp only: state.simps p c specAddTopLevelUpdate_effect)
qed


lemma ext_world_on_ext:
  "ext (world (on_world (on_ext g) s)) = g (ext (world s))"
  by (simp add: on_world_def on_ext_def)

lemma issueUpdate_batching:
  assumes b: "batching (ext (world t))"
    and amb: "ambient = (case priorityStack (ext (world t)) of p # ps \<Rightarrow> p | [] \<Rightarrow> TaskPriority)"
    and ns: "updPriority (enqueuedUpdate ambient c) \<noteq> SynchronousPriority"
  shows "ext (world (issueUpdate (specEnv resolve hostRoot) r c t)) =
           (ext (world t))\<lparr>updateQueue := updateQueue (ext (world t)) @
              [(current (roots (world t) r), enqueuedUpdate ambient c)]\<rparr>"
    and "current (roots (world (issueUpdate (specEnv resolve hostRoot) r c t)) r) =
           current (roots (world t) r)"
proof -
  have direct: "ext (world (updateContainer (specEnv resolve hostRoot) e r pc cb u)) =
           (ext (world u))\<lparr>updateQueue := updateQueue (ext (world u)) @
              [(current (roots (world u) r),
                \<lparr>updPayload = \<lparr>element = e\<rparr>, updPriority = specGetPriorityContext (world u),
                 updCallback = resolveCallback cb\<rparr>)]\<rparr>"
    if "batching (ext (world u))" "specGetPriorityContext (world u) \<noteq> SynchronousPriority"
    for e pc cb u
    using that
    by (simp add: updateContainer_specEnv_world Let_def specScheduleUpdate_deferred
          specAddTopLevelUpdate_effect update_root_ext)
  have cur: "current (roots (world (updateContainer (specEnv resolve hostRoot) e r pc cb u)) r) =
               current (roots (world u) r)" for e pc cb u
    by (simp add: updateContainer_specEnv_world Let_def specScheduleUpdate_roots
          specAddTopLevelUpdate_effect update_root_current)
  show "ext (world (issueUpdate (specEnv resolve hostRoot) r c t)) =
           (ext (world t))\<lparr>updateQueue := updateQueue (ext (world t)) @
              [(current (roots (world t) r), enqueuedUpdate ambient c)]\<rparr>"
  proof (cases "atPriority c")
    case None
    have p: "specGetPriorityContext (world t) = ambient"
      using b amb by (simp add: specGetPriorityContext_def split: list.splits)
    then have "specGetPriorityContext (world t) \<noteq> SynchronousPriority"
      using ns None by (simp add: enqueuedUpdate_def)
    from direct[OF b this] show ?thesis
      using None by (simp add: issueUpdate_def enqueuedUpdate_def p)
  next
    case (Some level)
    let ?u = "on_world (on_ext (\<lambda>sch. sch\<lparr>priorityStack := level # priorityStack sch\<rparr>)) t"
    have bu: "batching (ext (world ?u))"
      using b by (simp add: on_world_def on_ext_def)
    have pu: "specGetPriorityContext (world ?u) = level"
      by (simp add: specGetPriorityContext_def on_world_def on_ext_def)
    have "level \<noteq> SynchronousPriority"
      using ns Some by (simp add: enqueuedUpdate_def)
    then have nsu: "specGetPriorityContext (world ?u) \<noteq> SynchronousPriority"
      using pu by simp
    have cu: "current (roots (world ?u) r) = current (roots (world t) r)"
      by (simp add: on_world_def on_ext_def)
    have "ext (world (issueUpdate (specEnv resolve hostRoot) r c t)) =
            (ext (world (updateContainer (specEnv resolve hostRoot)
                           (callElement c) r (callParent c) (callCallback c) ?u)))
              \<lparr>priorityStack := tl (priorityStack
                 (ext (world (updateContainer (specEnv resolve hostRoot)
                                (callElement c) r (callParent c) (callCallback c) ?u))))\<rparr>"
      using Some
      by (simp add: issueUpdate_def performWithPriority_def Let_def ext_world_on_ext)
    also have "\<dots> = (ext (world t))\<lparr>updateQueue := updateQueue (ext (world t)) @
              [(current (roots (world t) r), enqueuedUpdate ambient c)]\<rparr>"
      unfolding direct[OF bu nsu] pu cu
      using Some by (simp add: ext_world_on_ext enqueuedUpdate_def)
    finally show ?thesis .
  qed
  show "current (roots (world (issueUpdate (specEnv resolve hostRoot) r c t)) r) =
           current (roots (world t) r)"
    by (cases "atPriority c")
       (simp_all add: issueUpdate_def performWithPriority_def Let_def cur on_world_def on_ext_def)
qed

lemma issueUpdates_batching:
  assumes b: "batching (ext (world t))"
    and amb: "ambient = (case priorityStack (ext (world t)) of p # ps \<Rightarrow> p | [] \<Rightarrow> TaskPriority)"
    and ns: "\<forall>c \<in> set cs. updPriority (enqueuedUpdate ambient c) \<noteq> SynchronousPriority"
  shows "ext (world (issueUpdates (specEnv resolve hostRoot) r cs t)) =
           (ext (world t))\<lparr>updateQueue := updateQueue (ext (world t)) @
              map (\<lambda>c. (current (roots (world t) r), enqueuedUpdate ambient c)) cs\<rparr>"
  using assms
proof (induction cs arbitrary: t)
  case Nil
  then show ?case by (simp add: issueUpdates_def)
next
  case (Cons c cs)
  let ?t' = "issueUpdate (specEnv resolve hostRoot) r c t"
  have ns1: "updPriority (enqueuedUpdate ambient c) \<noteq> SynchronousPriority"
    using Cons.prems(3) by simp
  have e: "ext (world ?t') =
           (ext (world t))\<lparr>updateQueue := updateQueue (ext (world t)) @
              [(current (roots (world t) r), enqueuedUpdate ambient c)]\<rparr>"
    and cur: "current (roots (world ?t') r) = current (roots (world t) r)"
    using issueUpdate_batching[OF Cons.prems(1,2) ns1] by simp_all
  have b': "batching (ext (world ?t'))"
    and amb': "ambient = (case priorityStack (ext (world ?t')) of p # ps \<Rightarrow> p | [] \<Rightarrow> TaskPriority)"
    using Cons.prems(1,2) by (simp_all add: e)
  have "ext (world (issueUpdates (specEnv resolve hostRoot) r cs ?t')) =
           (ext (world ?t'))\<lparr>updateQueue := updateQueue (ext (world ?t')) @
              map (\<lambda>c. (current (roots (world ?t') r), enqueuedUpdate ambient c)) cs\<rparr>"
    using Cons.IH[OF b' amb'] Cons.prems(3) by simp
  then show ?case
    by (simp add: issueUpdates_def e cur)
qed

text \<open>
  Claim C3: for every batch of N \<ge> 1 \<open>updateContainer\<close> calls on one root issued inside
  one outermost \<open>batchedUpdates(fn)\<close> call, each directly or inside
  \<open>performWithPriority\<close> and none at Synchronous priority, no run of the Commit
  Pipeline happens while \<open>fn\<close> executes, and when \<open>batchedUpdates\<close> returns exactly one
  run has been added for that root's top node; that run applies the N updates in the
  order they were enqueued (after any updates already pending for the node).
\<close>

theorem batchedUpdates_single_commit:
  assumes ne: "cs \<noteq> []"
    and outer: "\<not> batching (ext (world s))"
    and amb: "ambient = (case priorityStack (ext (world s)) of p # ps \<Rightarrow> p | [] \<Rightarrow> TaskPriority)"
    and ns: "\<forall>c \<in> set cs. updPriority (enqueuedUpdate ambient c) \<noteq> SynchronousPriority"
  shows "let E = specEnv resolve hostRoot;
             f = current (roots (world s) r);
             during = issueUpdates E r cs
                        (on_world (on_ext (\<lambda>sch. sch\<lparr>batching := True\<rparr>)) s);
             s' = snd (batchedUpdates (\<lambda>t. ((), issueUpdates E r cs t)) s)
         in commits (ext (world during)) = commits (ext (world s))
          \<and> commitsOf f (ext (world s')) =
              commitsOf f (ext (world s)) @
                [\<lparr>committedRoot = f,
                  committedUpdates =
                    pendingOf f (ext (world s)) @ map (enqueuedUpdate ambient) cs\<rparr>]"
proof -
  let ?E = "specEnv resolve hostRoot"
  let ?f = "current (roots (world s) r)"
  let ?s1 = "on_world (on_ext (\<lambda>sch. sch\<lparr>batching := True\<rparr>)) s"
  let ?during = "issueUpdates ?E r cs ?s1"
  have b1: "batching (ext (world ?s1))"
    and amb1: "ambient = (case priorityStack (ext (world ?s1)) of p # ps \<Rightarrow> p | [] \<Rightarrow> TaskPriority)"
    and cur1: "current (roots (world ?s1) r) = ?f"
    using amb by (simp_all add: ext_world_on_ext) (simp add: on_world_def on_ext_def)
  have d: "ext (world ?during) =
           (ext (world ?s1))\<lparr>updateQueue := updateQueue (ext (world ?s1)) @
              map (\<lambda>c. (?f, enqueuedUpdate ambient c)) cs\<rparr>"
    using issueUpdates_batching[OF b1 amb1 ns, of resolve hostRoot r] cur1 by simp
  have c1: "commits (ext (world ?during)) = commits (ext (world s))"
    unfolding d by (simp add: ext_world_on_ext)
  let ?sch3 = "(ext (world ?during))\<lparr>batching := False\<rparr>"
  have s': "ext (world (snd (batchedUpdates (\<lambda>t. ((), issueUpdates ?E r cs t)) s))) =
              performPendingWork ?sch3"
    using outer by (simp add: batchedUpdates_def Let_def ext_world_on_ext)
  have pend: "pendingOf ?f ?sch3 = pendingOf ?f (ext (world s)) @ map (enqueuedUpdate ambient) cs"
    unfolding d by (simp add: pendingOf_def ext_world_on_ext comp_def)
  have "commitsOf ?f ?sch3 = commitsOf ?f (ext (world s))"
    unfolding d by (simp add: commitsOf_def ext_world_on_ext)
  then have "commitsOf ?f (performPendingWork ?sch3) =
               commitsOf ?f (ext (world s)) @
                 [\<lparr>committedRoot = ?f,
                   committedUpdates =
                     pendingOf ?f (ext (world s)) @ map (enqueuedUpdate ambient) cs\<rparr>]"
    using ne by (simp add: performPendingWork_commitsOf pend)
  then show ?thesis
    using c1 by (simp add: Let_def s')
qed

theorem batchedUpdates_single_commit_witness:
  "\<not> batching (ext (world (exampleState (Fiber NoStateNode None None))))
   \<and> commitsOf (Fiber NoStateNode None None)
        (ext (world (snd (batchedUpdates
           (\<lambda>t. ((), issueUpdates exampleEnv 0
                    [\<lparr>atPriority = None, callElement = Some 1, callParent = None,
                      callCallback = CbUndefined\<rparr>,
                     \<lparr>atPriority = Some LowPriority, callElement = Some 2, callParent = None,
                      callCallback = CbNull\<rparr>] t))
           (exampleState (Fiber NoStateNode None None)))))) =
       [\<lparr>committedRoot = Fiber NoStateNode None None,
         committedUpdates =
           [\<lparr>updPayload = \<lparr>element = Some 1\<rparr>, updPriority = TaskPriority, updCallback = None\<rparr>,
            \<lparr>updPayload = \<lparr>element = Some 2\<rparr>, updPriority = LowPriority, updCallback = None\<rparr>]\<rparr>]"
proof -
  let ?s = "exampleState (Fiber NoStateNode None None)"
  let ?cs = "[\<lparr>atPriority = None, callElement = Some 1, callParent = None,
                callCallback = CbUndefined\<rparr>,
              \<lparr>atPriority = Some LowPriority, callElement = Some 2, callParent = None,
                callCallback = CbNull\<rparr>]"
  have ne: "?cs \<noteq> []" by simp
  have outer: "\<not> batching (ext (world ?s))"
    by (simp add: exampleState_def exampleWorld_def idleScheduler_def)
  have amb: "TaskPriority = (case priorityStack (ext (world ?s)) of p # ps \<Rightarrow> p | [] \<Rightarrow> TaskPriority)"
    by (simp add: exampleState_def exampleWorld_def idleScheduler_def)
  have ns: "\<forall>c \<in> set ?cs. updPriority (enqueuedUpdate TaskPriority c) \<noteq> SynchronousPriority"
    by (simp add: enqueuedUpdate_def)
  have f: "current (roots (world ?s) 0) = Fiber NoStateNode None None"
    and q: "commitsOf (Fiber NoStateNode None None) (ext (world ?s)) = []"
           "pendingOf (Fiber NoStateNode None None) (ext (world ?s)) = []"
    by (simp_all add: exampleState_def exampleWorld_def idleScheduler_def commitsOf_def
          pendingOf_def)
  show ?thesis
    using outer batchedUpdates_single_commit [OF ne outer amb ns,
        of "\<lambda>p w. case p of None \<Rightarrow> 0 | Some c \<Rightarrow> Suc c" "Fiber NoStateNode None None" 0]
    by (simp add: Let_def f q exampleEnv_def enqueuedUpdate_def resolveCallback_def)
qed

section \<open>Containers that are invalid or never rendered into\<close>

text \<open>
  Claim C4: for every container argument that is \<open>null\<close> or whose \<open>nodeType\<close> is none of
  1, 9 and 11, each of \<open>render\<close>, \<open>renderSubtreeIntoContainer\<close>,
  \<open>unstable_renderSubtreeIntoContainer\<close> and \<open>unmountComponentAtNode\<close> throws and leaves
  the state as it was: no root is allocated and no call is made on the reconciler, the
  adapter or the DOM.
\<close>

theorem invalid_container_rejected:
  assumes "container = None \<or>
           (\<exists>n. container = Some n \<and> nodeType (nodes (world s) n) \<notin> {1, 9, 11})"
  shows "render E e container cb s =
           (Inl (Error ''Target container is not a DOM element.''), s)
       \<and> renderSubtreeIntoContainer E pc e container cb s =
           (Inl (Error ''Target container is not a DOM element.''), s)
       \<and> (\<exists>err. unstable_renderSubtreeIntoContainer E D pc e container cb s = (Inl err, s))
       \<and> unmountComponentAtNode E D container s =
           (Inl (InvariantViolation
                  ''unmountComponentAtNode(...): Target container is not a DOM element.''), s)"
proof -
  have "\<not> isValidContainer container (world s)"
    using assms
    by (auto simp: isValidContainer_def ELEMENT_NODE_TYPE_def DOC_NODE_TYPE_def
          DOCUMENT_FRAGMENT_NODE_TYPE_def)
  then show ?thesis
    by (simp add: render_def renderSubtreeIntoContainer_def validateContainer_def
          unstable_renderSubtreeIntoContainer_def unmountComponentAtNode_def)
qed

theorem invalid_container_rejected_witness:
  "nodeType (nodes (world (exampleState (Fiber NoStateNode None None))) 1) \<notin> {1, 9, 11}
   \<and> render exampleEnv (Some 2) (Some 1) CbUndefined (exampleState (Fiber NoStateNode None None)) =
       (Inl (Error ''Target container is not a DOM element.''),
        exampleState (Fiber NoStateNode None None))
   \<and> unmountComponentAtNode exampleEnv exampleDOMEnv None (exampleState (Fiber NoStateNode None None)) =
       (Inl (InvariantViolation
              ''unmountComponentAtNode(...): Target container is not a DOM element.''),
        exampleState (Fiber NoStateNode None None))"
proof -
  have t: "nodeType (nodes (world (exampleState (Fiber NoStateNode None None))) 1) \<notin> {1, 9, 11}"
    by (simp add: exampleState_def exampleWorld_def exampleNode_def)
  show ?thesis
    using t
      invalid_container_rejected
        [of "Some 1" "exampleState (Fiber NoStateNode None None)" exampleEnv "Some 2" CbUndefined
            None exampleDOMEnv]
      invalid_container_rejected
        [of None "exampleState (Fiber NoStateNode None None)" exampleEnv None CbUndefined
            None exampleDOMEnv]
    by simp
qed

text \<open>
  Claim C7: \<open>unmountComponentAtNode\<close> on a valid container that carries no root returns
  normally (with \<open>undefined\<close>) and does nothing but note that the instability warning
  was given: the roots, the DOM nodes and the state of the collaborators stay as they
  were, no update is enqueued, and no call is made on the reconciler or on the DOM.
\<close>

theorem unmount_without_root:
  assumes "nodeType (nodes (world s) n) \<in> {1, 9, 11}"
    and "reactRootContainer (nodes (world s) n) = None"
  shows "\<exists>s'. unmountComponentAtNode E D (Some n) s = (Inr None, s')
           \<and> world s' = (world s)\<lparr>warned := True\<rparr>
           \<and> calls s' = calls s @
               (if warned (world s) \<or> useFiber D then []
                else [Warning ''You are using React DOM Fiber which is an experimental renderer. It is likely to have bugs, breaking changes and is unsupported.''])"
proof -
  have "isValidContainer (Some n) (world s)"
    using assms(1)
    by (auto simp: isValidContainer_def ELEMENT_NODE_TYPE_def DOC_NODE_TYPE_def
          DOCUMENT_FRAGMENT_NODE_TYPE_def)
  then show ?thesis
    using assms(2)
    by (simp add: unmountComponentAtNode_def warnAboutUnstableUse_def Let_def on_world_def emit_def)
qed

theorem unmount_without_root_witness:
  "nodeType (nodes (world (exampleState (Fiber NoStateNode None None))) 0) \<in> {1, 9, 11}
   \<and> reactRootContainer (nodes (world (exampleState (Fiber NoStateNode None None))) 0) = None
   \<and> fst (unmountComponentAtNode exampleEnv exampleDOMEnv (Some 0)
            (exampleState (Fiber NoStateNode None None))) = Inr None
   \<and> roots (world (snd (unmountComponentAtNode exampleEnv exampleDOMEnv (Some 0)
            (exampleState (Fiber NoStateNode None None)))))
       = roots (world (exampleState (Fiber NoStateNode None None)))"
proof -
  have a: "nodeType (nodes (world (exampleState (Fiber NoStateNode None None))) 0) \<in> {1, 9, 11}"
    and b: "reactRootContainer (nodes (world (exampleState (Fiber NoStateNode None None))) 0) = None"
    by (simp_all add: exampleState_def exampleWorld_def exampleNode_def)
  show ?thesis
    using a b unmount_without_root [OF a b, of exampleEnv exampleDOMEnv]
    by auto
qed

section \<open>Rendering into a DOM container\<close>

lemma clearContent_result:
  "childNodes (nodes (world s) c) = kids \<Longrightarrow> distinct kids \<Longrightarrow>
   clearContent c s =
     \<lparr>world = (world s)\<lparr>nodes := (nodes (world s))
                 (c := (nodes (world s) c)\<lparr>childNodes := []\<rparr>)\<rparr>,
      calls = calls s @ map (DOMRemoveChild c) (rev kids)\<rparr>"
proof (induction kids arbitrary: s rule: rev_induct)
  case Nil
  then have "lastChild (nodes (world s) c) = None"
    by (simp add: lastChild_def)
  moreover have "(nodes (world s) c)\<lparr>childNodes := []\<rparr> = nodes (world s) c"
    using Nil by simp
  ultimately show ?case
    by (subst clearContent.simps) simp
next
  case (snoc x xs)
  let ?s' = "domRemoveChild c x s"
  have last: "lastChild (nodes (world s) c) = Some x"
    using snoc.prems by (simp add: lastChild_def)
  have "remove1 x (xs @ [x]) = xs"
    using snoc.prems(2) by (simp add: remove1_append)
  then have kids': "childNodes (nodes (world ?s') c) = xs"
    using snoc.prems(1) by (simp add: domRemoveChild_def emit_def on_world_def)
  have "clearContent c s = clearContent c ?s'"
    using last by (subst clearContent.simps) simp
  also have "\<dots> = \<lparr>world = (world ?s')\<lparr>nodes := (nodes (world ?s'))
                 (c := (nodes (world ?s') c)\<lparr>childNodes := []\<rparr>)\<rparr>,
      calls = calls ?s' @ map (DOMRemoveChild c) (rev xs)\<rparr>"
    using snoc.prems(2) by (intro snoc.IH[OF kids']) simp
  also have "\<dots> = \<lparr>world = (world s)\<lparr>nodes := (nodes (world s))
                 (c := (nodes (world s) c)\<lparr>childNodes := []\<rparr>)\<rparr>,
      calls = calls s @ map (DOMRemoveChild c) (rev (xs @ [x]))\<rparr>"
    by (simp add: domRemoveChild_def emit_def on_world_def)
  finally show ?case .
qed

lemma updateContainer_calls_shape:
  "\<exists>ctx p f1 f2.
     calls (updateContainer E e r pc cb s) =
       calls s @ [GetContextForSubtree pc ctx, GetPriorityContext p,
                  AddTopLevelUpdate f1 \<lparr>element = e\<rparr> (resolveCallback cb) p,
                  ScheduleUpdate f2 p]"
  by (simp add: updateContainer_def Let_def)

text \<open>
  Claim C8: on a render into a valid container whose target node (the document element
  for a document, the node itself otherwise) carries no root, every child of the target
  is removed, last child first, then the root is created and attached to the target,
  and then the update is issued between entering and leaving \<open>unbatchedUpdates\<close>; on a
  render into a target that carries a root, that root receives the update directly, no
  child is removed and no root is created.
\<close>

theorem renderSubtreeIntoContainer_first_and_later:
  assumes valid: "nodeType (nodes (world s) n) \<in> {1, 9, 11}"
    and target: "(if nodeType (nodes (world s) n) = 9
                  then documentElement (nodes (world s) n) else Some n) = Some c"
  shows "(reactRootContainer (nodes (world s) c) = None \<longrightarrow>
          distinct (childNodes (nodes (world s) c)) \<longrightarrow>
            (let r = nextRoot (world s);
                 kids = childNodes (nodes (world s) c);
                 s3 = \<lparr>world = (world s)
                         \<lparr>roots := (roots (world s))(r := createFiberRoot E c),
                          nextRoot := Suc r,
                          nodes := (nodes (world s))
                            (c := (nodes (world s) c)
                               \<lparr>childNodes := [], reactRootContainer := Some r\<rparr>)\<rparr>,
                       calls = calls s @ map (DOMRemoveChild c) (rev kids) @ [CreateFiberRoot c]\<rparr>;
                 s4 = snd (unbatchedUpdates E
                             (\<lambda>t. ((), updateContainer E e r pc cb t)) s3)
             in renderSubtreeIntoContainer E pc e (Some n) cb s =
                  (Inr (getPublicRootInstance r (world s4)), s4)
              \<and> (\<exists>ctx p f1 f2.
                    calls s4 =
                      calls s @ map (DOMRemoveChild c) (rev kids) @
                        [CreateFiberRoot c,
                         EnterUnbatchedUpdates,
                         GetContextForSubtree pc ctx,
                         GetPriorityContext p,
                         AddTopLevelUpdate f1 \<lparr>element = e\<rparr> (resolveCallback cb) p,
                         ScheduleUpdate f2 p,
                         LeaveUnbatchedUpdates])))
       \<and> (\<forall>root. reactRootContainer (nodes (world s) c) = Some root \<longrightarrow>
            (let s1 = updateContainer E e root pc cb s
             in renderSubtreeIntoContainer E pc e (Some n) cb s =
                  (Inr (getPublicRootInstance root (world s1)), s1)
              \<and> (\<exists>ctx p f1 f2.
                    calls s1 =
                      calls s @
                        [GetContextForSubtree pc ctx,
                         GetPriorityContext p,
                         AddTopLevelUpdate f1 \<lparr>element = e\<rparr> (resolveCallback cb) p,
                         ScheduleUpdate f2 p])))"
proof -
  have ok: "validateContainer (Some n) (world s) = Inr ()"
    using valid
    by (auto simp: validateContainer_def isValidContainer_def ELEMENT_NODE_TYPE_def
          DOC_NODE_TYPE_def DOCUMENT_FRAGMENT_NODE_TYPE_def)
  have tgt: "(if nodeType (nodes (world s) n) = DOCUMENT_NODE
              then documentElement (nodes (world s) n) else Some n) = Some c"
    using target by (simp add: DOCUMENT_NODE_def)
  have unfold: "renderSubtreeIntoContainer E pc e (Some n) cb s =
      (case reactRootContainer (nodes (world s) c) of
         None \<Rightarrow>
           (let s1 = clearContent c s;
                (newRoot, s2) = createContainer E c s1;
                s3 = on_world (setReactRootContainer c (Some newRoot)) s2;
                (u', s4) = unbatchedUpdates E
                   (\<lambda>t. ((), updateContainer E e newRoot pc cb t)) s3
            in (Inr (getPublicRootInstance newRoot (world s4)), s4))
       | Some root \<Rightarrow>
           (let s1 = updateContainer E e root pc cb s
            in (Inr (getPublicRootInstance root (world s1)), s1)))"
    using tgt by (simp add: renderSubtreeIntoContainer_def ok split: if_splits)
  have first: ?thesis if none: "reactRootContainer (nodes (world s) c) = None"
    and dist: "distinct (childNodes (nodes (world s) c))"
  proof -
    let ?r = "nextRoot (world s)"
    let ?kids = "childNodes (nodes (world s) c)"
    let ?s3 = "\<lparr>world = (world s)
                         \<lparr>roots := (roots (world s))(?r := createFiberRoot E c),
                          nextRoot := Suc ?r,
                          nodes := (nodes (world s))
                            (c := (nodes (world s) c)
                               \<lparr>childNodes := [], reactRootContainer := Some ?r\<rparr>)\<rparr>,
                       calls = calls s @ map (DOMRemoveChild c) (rev ?kids) @ [CreateFiberRoot c]\<rparr>"
    let ?s4 = "snd (unbatchedUpdates E (\<lambda>t. ((), updateContainer E e ?r pc cb t)) ?s3)"
    have s3: "on_world (setReactRootContainer c (Some ?r))
                (snd (createContainer E c (clearContent c s))) = ?s3"
      and r: "fst (createContainer E c (clearContent c s)) = ?r"
      by (simp_all add: clearContent_result[OF refl dist] createContainer_def Let_def
            on_world_def setReactRootContainer_def)
    have res: "renderSubtreeIntoContainer E pc e (Some n) cb s =
                 (Inr (getPublicRootInstance ?r (world ?s4)), ?s4)"
      unfolding unfold
      using none s3 r by (simp add: Let_def case_prod_beta)
    obtain ctx p f1 f2 where
      "calls (updateContainer E e ?r pc cb
                (emit EnterUnbatchedUpdates (on_world (setBatchingUpdates E False) ?s3))) =
         calls (emit EnterUnbatchedUpdates (on_world (setBatchingUpdates E False) ?s3)) @
           [GetContextForSubtree pc ctx, GetPriorityContext p,
            AddTopLevelUpdate f1 \<lparr>element = e\<rparr> (resolveCallback cb) p,
            ScheduleUpdate f2 p]"
      using updateContainer_calls_shape
        [of E e ?r pc cb "emit EnterUnbatchedUpdates (on_world (setBatchingUpdates E False) ?s3)"]
      by blast
    then have "calls ?s4 =
                      calls s @ map (DOMRemoveChild c) (rev ?kids) @
                        [CreateFiberRoot c,
                         EnterUnbatchedUpdates,
                         GetContextForSubtree pc ctx,
                         GetPriorityContext p,
                         AddTopLevelUpdate f1 \<lparr>element = e\<rparr> (resolveCallback cb) p,
                         ScheduleUpdate f2 p,
                         LeaveUnbatchedUpdates]"
      by (simp add: unbatchedUpdates_def Let_def emit_def on_world_def)
    then have "\<exists>ctx p f1 f2. calls ?s4 =
                      calls s @ map (DOMRemoveChild c) (rev ?kids) @
                        [CreateFiberRoot c,
                         EnterUnbatchedUpdates,
                         GetContextForSubtree pc ctx,
                         GetPriorityContext p,
                         AddTopLevelUpdate f1 \<lparr>element = e\<rparr> (resolveCallback cb) p,
                         ScheduleUpdate f2 p,
                         LeaveUnbatchedUpdates]"
      by blast
    then show ?thesis
      using res none by (simp add: Let_def)
  qed
  have later: "renderSubtreeIntoContainer E pc e (Some n) cb s =
                 (Inr (getPublicRootInstance root (world (updateContainer E e root pc cb s))),
                  updateContainer E e root pc cb s)"
    if "reactRootContainer (nodes (world s) c) = Some root" for root
    unfolding unfold
    using that by (simp add: Let_def)
  show ?thesis
  proof (cases "reactRootContainer (nodes (world s) c)")
    case None
    then show ?thesis using first by auto
  next
    case (Some root)
    then show ?thesis
      using later[OF Some] updateContainer_calls_shape[of E e root pc cb s]
      by (simp add: Let_def)
  qed
qed


theorem renderSubtreeIntoContainer_first_and_later_witness:
  "nodeType (nodes (world (exampleState (Fiber NoStateNode None None))) 0) \<in> {1, 9, 11}
   \<and> reactRootContainer (nodes (world (exampleState (Fiber NoStateNode None None))) 0) = None
   \<and> distinct (childNodes (nodes (world (exampleState (Fiber NoStateNode None None))) 0))
   \<and> (\<exists>ctx p f1 f2.
         calls (snd (renderSubtreeIntoContainer exampleEnv None (Some 3) (Some 0) CbUndefined
                       (exampleState (Fiber NoStateNode None None)))) =
           [DOMRemoveChild 0 6, DOMRemoveChild 0 5, CreateFiberRoot 0,
            EnterUnbatchedUpdates,
            GetContextForSubtree None ctx,
            GetPriorityContext p,
            AddTopLevelUpdate f1 \<lparr>element = Some 3\<rparr> None p,
            ScheduleUpdate f2 p,
            LeaveUnbatchedUpdates])
   \<and> reactRootContainer (nodes (world
         (on_world (setReactRootContainer 0 (Some 0))
            (exampleState (Fiber NoStateNode None None)))) 0) = Some 0
   \<and> (\<exists>ctx p f1 f2.
         calls (snd (renderSubtreeIntoContainer exampleEnv None (Some 4) (Some 0) CbNull
                       (on_world (setReactRootContainer 0 (Some 0))
                          (exampleState (Fiber NoStateNode None None))))) =
           [GetContextForSubtree None ctx,
            GetPriorityContext p,
            AddTopLevelUpdate f1 \<lparr>element = Some 4\<rparr> None p,
            ScheduleUpdate f2 p])"
proof -
  let ?s = "exampleState (Fiber NoStateNode None None)"
  let ?t = "on_world (setReactRootContainer 0 (Some 0)) ?s"
  have v: "nodeType (nodes (world ?s) 0) \<in> {1, 9, 11}"
    and tg: "(if nodeType (nodes (world ?s) 0) = 9
              then documentElement (nodes (world ?s) 0) else Some 0) = Some 0"
    and none: "reactRootContainer (nodes (world ?s) 0) = None"
    and kids: "childNodes (nodes (world ?s) 0) = [5, 6]"
    and cs: "calls ?s = []"
    by (simp_all add: exampleState_def exampleWorld_def exampleNode_def)
  have v': "nodeType (nodes (world ?t) 0) \<in> {1, 9, 11}"
    and tg': "(if nodeType (nodes (world ?t) 0) = 9
               then documentElement (nodes (world ?t) 0) else Some 0) = Some 0"
    and some: "reactRootContainer (nodes (world ?t) 0) = Some 0"
    and cs': "calls ?t = []"
    by (simp_all add: exampleState_def exampleWorld_def exampleNode_def on_world_def
          setReactRootContainer_def)
  have a: "\<exists>ctx p f1 f2.
         calls (snd (renderSubtreeIntoContainer exampleEnv None (Some 3) (Some 0) CbUndefined ?s)) =
           [DOMRemoveChild 0 6, DOMRemoveChild 0 5, CreateFiberRoot 0,
            EnterUnbatchedUpdates,
            GetContextForSubtree None ctx,
            GetPriorityContext p,
            AddTopLevelUpdate f1 \<lparr>element = Some 3\<rparr> None p,
            ScheduleUpdate f2 p,
            LeaveUnbatchedUpdates]"
    using renderSubtreeIntoContainer_first_and_later
      [OF v tg, where E = exampleEnv and pc = None and e = "Some 3" and cb = CbUndefined] none kids cs
    by (simp add: Let_def resolveCallback_def)
  have b: "\<exists>ctx p f1 f2.
         calls (snd (renderSubtreeIntoContainer exampleEnv None (Some 4) (Some 0) CbNull ?t)) =
           [GetContextForSubtree None ctx,
            GetPriorityContext p,
            AddTopLevelUpdate f1 \<lparr>element = Some 4\<rparr> None p,
            ScheduleUpdate f2 p]"
    using renderSubtreeIntoContainer_first_and_later
      [OF v' tg', where E = exampleEnv and pc = None and e = "Some 4" and cb = CbNull] some cs'
    by (simp add: Let_def resolveCallback_def)
  show ?thesis
    using v none kids some a b by simp
qed

section \<open>The public root instance and the host instance\<close>

text \<open>
  Claim C5, refuted as stated: a root whose top node has a child without a
  \<open>stateNode\<close> (a child that is a non-rendering construct with no instance of its own)
  yields \<open>null\<close> although the child exists.
\<close>

theorem getPublicRootInstance_null_with_child:
  "getPublicRootInstance 0
     (exampleWorld (Fiber NoStateNode (Some (Fiber NoStateNode None None)) None)) = NoStateNode
   \<and> child (current (roots
        (exampleWorld (Fiber NoStateNode (Some (Fiber NoStateNode None None)) None)) 0)) \<noteq> None"
  by (simp add: getPublicRootInstance_def exampleWorld_def)

text \<open>
  Claim C5, amended: for every root, \<open>getPublicRootInstance\<close> returns the \<open>stateNode\<close>
  of the top node's child whenever there is a child, and it returns \<open>null\<close> if and only
  if the top node has no child or that child's \<open>stateNode\<close> is itself \<open>null\<close>.
\<close>

theorem getPublicRootInstance_result:
  "(getPublicRootInstance r w = NoStateNode \<longleftrightarrow>
      (child (current (roots w r)) = None \<or>
       (\<exists>c. child (current (roots w r)) = Some c \<and> stateNode c = NoStateNode)))
   \<and> (\<forall>c. child (current (roots w r)) = Some c \<longrightarrow> getPublicRootInstance r w = stateNode c)"
  by (auto simp: getPublicRootInstance_def split: option.splits)

theorem getPublicRootInstance_result_witness:
  "child (current (roots
      (exampleWorld (Fiber NoStateNode (Some (Fiber (HostInstance 7) None None)) None)) 0))
     = Some (Fiber (HostInstance 7) None None)
   \<and> getPublicRootInstance 0
       (exampleWorld (Fiber NoStateNode (Some (Fiber (HostInstance 7) None None)) None))
     = HostInstance 7"
  using getPublicRootInstance_result
    [of 0 "exampleWorld (Fiber NoStateNode (Some (Fiber (HostInstance 7) None None)) None)"]
  by (simp add: exampleWorld_def)

text \<open>The search is the first match in the order of the walk.\<close>

lemma find_append_first:
  "List.find P (xs @ ys) = (case List.find P xs of Some x \<Rightarrow> Some x | None \<Rightarrow> List.find P ys)"
  by (induction xs) auto

lemma findCurrentHostFiber_walk:
  "findCurrentHostFiber f = List.find ownsOutputInstance (subtree f)"
  "findHostFiberFrom fo = List.find ownsOutputInstance (subtreeFrom fo)"
  by (induction f and fo rule: findCurrentHostFiber_findHostFiberFrom.induct)
     (auto simp: find_append_first split: option.splits)

lemma ownsOutputInstance_stateNode:
  "ownsOutputInstance h \<Longrightarrow> stateNode h \<noteq> NoStateNode"
  by (auto simp: ownsOutputInstance_def split: StateNode.splits)

text \<open>
  Claim C6: for every work node, \<open>findHostInstance\<close> returns the \<open>stateNode\<close> of the
  nearest work node of its subtree that owns an output instance, that is the first one
  the walk reaches (no node visited before it, so none of its ancestors, owns one), and
  that result is not \<open>null\<close>; it returns \<open>null\<close> exactly when no work node of the
  subtree owns an output instance.
\<close>

theorem findHostInstance_nearest:
  "(case List.find ownsOutputInstance (subtree f) of
      None \<Rightarrow> findHostInstance f = NoStateNode
    | Some h \<Rightarrow> findHostInstance f = stateNode h \<and> stateNode h \<noteq> NoStateNode)
   \<and> (findHostInstance f = NoStateNode \<longleftrightarrow> (\<forall>g \<in> set (subtree f). \<not> ownsOutputInstance g))"
proof -
  have "findHostInstance f = NoStateNode" if "List.find ownsOutputInstance (subtree f) = None"
    using that by (simp add: findHostInstance_def findCurrentHostFiber_walk)
  moreover have "findHostInstance f = stateNode h \<and> stateNode h \<noteq> NoStateNode"
    if "List.find ownsOutputInstance (subtree f) = Some h" for h
  proof -
    have "ownsOutputInstance h" using that by (auto simp: find_Some_iff)
    then show ?thesis
      using that
      by (simp add: findHostInstance_def findCurrentHostFiber_walk ownsOutputInstance_stateNode)
  qed
  moreover have "(List.find ownsOutputInstance (subtree f) = None) \<longleftrightarrow>
      (\<forall>g \<in> set (subtree f). \<not> ownsOutputInstance g)"
    by (auto simp: find_None_iff)
  ultimately show ?thesis
    by (cases "List.find ownsOutputInstance (subtree f)") auto
qed

theorem findHostInstance_nearest_witness:
  "findHostInstance
     (Fiber (ComponentInstance 1)
        (Some (Fiber NoStateNode None (Some (Fiber (HostInstance 4) None None)))) None)
     = HostInstance 4
   \<and> \<not> (\<forall>g \<in> set (subtree
        (Fiber (ComponentInstance 1)
           (Some (Fiber NoStateNode None (Some (Fiber (HostInstance 4) None None)))) None)).
        \<not> ownsOutputInstance g)"
  using findHostInstance_nearest
    [of "Fiber (ComponentInstance 1)
           (Some (Fiber NoStateNode None (Some (Fiber (HostInstance 4) None None)))) None"]
  by (simp add: ownsOutputInstance_def)

section \<open>The adapter's commit hooks and mount effect\<close>

lemma between_append:
  "between (gs @ hs) w = between hs (between gs w)"
  by (induction gs arbitrary: w) auto

lemma between_frame:
  assumes "\<forall>g \<in> set steps. \<forall>w. P (g w) = P w"
  shows "P (between steps w) = P w"
  using assms by (induction steps arbitrary: w) auto

text \<open>
  Claim C9: for every call of \<open>prepareForCommit\<close> followed, after any work that leaves
  the emitter's flag and the variable \<open>eventsEnabled\<close> alone, by \<open>resetAfterCommit\<close>:
  the emitter's enabled flag ends with the value it had before \<open>prepareForCommit\<close>,
  it is off after \<open>prepareForCommit\<close> and after every step of the work between, and
  \<open>eventsEnabled\<close> and \<open>selectionInformation\<close> are \<open>null\<close> at the end. The emitter is a
  collaborator; \<open>isEnabled\<close> is taken to return what \<open>setEnabled\<close> last stored.
\<close>

theorem commit_hooks_round_trip:
  assumes law: "\<And>b x. isEnabled D (setEnabled D (Some b) x) = b"
    and steps: "\<forall>g \<in> set steps. \<forall>w.
                  (isEnabled D (ext (g w)), eventsEnabled (g w)) =
                  (isEnabled D (ext w), eventsEnabled w)"
  shows "let w1 = prepareForCommit D w;
             w2 = between steps w1;
             w3 = resetAfterCommit D w2
         in isEnabled D (ext w3) = isEnabled D (ext w)
          \<and> (\<forall>k \<le> length steps. \<not> isEnabled D (ext (between (take k steps) w1)))
          \<and> eventsEnabled w3 = None
          \<and> selectionInformation w3 = None"
proof -
  let ?w1 = "prepareForCommit D w"
  have fr: "(isEnabled D (ext (between gs ?w1)), eventsEnabled (between gs ?w1)) =
            (isEnabled D (ext ?w1), eventsEnabled ?w1)"
    if "set gs \<subseteq> set steps" for gs
    using between_frame[of gs "\<lambda>w. (isEnabled D (ext w), eventsEnabled w)" ?w1] steps that
    by blast
  have off: "\<not> isEnabled D (ext ?w1)"
    and saved: "eventsEnabled ?w1 = Some (isEnabled D (ext w))"
    by (simp_all add: prepareForCommit_def Let_def on_ext_def law)
  have mid: "\<not> isEnabled D (ext (between (take k steps) ?w1))" for k
    using fr[of "take k steps"] off by (auto dest: in_set_takeD)
  have "eventsEnabled (between steps ?w1) = Some (isEnabled D (ext w))"
    using fr[of steps] saved by simp
  then have "isEnabled D (ext (resetAfterCommit D (between steps ?w1))) = isEnabled D (ext w)"
    and "eventsEnabled (resetAfterCommit D (between steps ?w1)) = None"
    and "selectionInformation (resetAfterCommit D (between steps ?w1)) = None"
    by (simp_all add: resetAfterCommit_def Let_def on_ext_def law)
  then show ?thesis
    using mid by (simp add: Let_def)
qed

theorem commit_hooks_round_trip_witness:
  "isEnabled flagDOMEnv (ext flagWorld)
   \<and> \<not> isEnabled flagDOMEnv (ext (prepareForCommit flagDOMEnv flagWorld))
   \<and> \<not> isEnabled flagDOMEnv
         (ext (between [\<lambda>w. w\<lparr>warned := True\<rparr>] (prepareForCommit flagDOMEnv flagWorld)))
   \<and> isEnabled flagDOMEnv
         (ext (resetAfterCommit flagDOMEnv
                 (between [\<lambda>w. w\<lparr>warned := True\<rparr>] (prepareForCommit flagDOMEnv flagWorld))))
   \<and> eventsEnabled
         (resetAfterCommit flagDOMEnv
            (between [\<lambda>w. w\<lparr>warned := True\<rparr>] (prepareForCommit flagDOMEnv flagWorld))) = None
   \<and> selectionInformation
         (resetAfterCommit flagDOMEnv
            (between [\<lambda>w. w\<lparr>warned := True\<rparr>] (prepareForCommit flagDOMEnv flagWorld))) = None"
proof -
  have law: "isEnabled flagDOMEnv (setEnabled flagDOMEnv (Some b) x) = b" for b x
    by (simp add: flagDOMEnv_def)
  have steps: "\<forall>g \<in> set [\<lambda>w :: (Fiber, bool) world. w\<lparr>warned := True\<rparr>]. \<forall>w.
                  (isEnabled flagDOMEnv (ext (g w)), eventsEnabled (g w)) =
                  (isEnabled flagDOMEnv (ext w), eventsEnabled w)"
    by simp
  have en: "isEnabled flagDOMEnv (ext flagWorld)"
    by (simp add: flagDOMEnv_def flagWorld_def)
  have all: "\<forall>k \<le> 1. \<not> isEnabled flagDOMEnv
         (ext (between (take k [\<lambda>w. w\<lparr>warned := True\<rparr>]) (prepareForCommit flagDOMEnv flagWorld)))"
    using commit_hooks_round_trip [OF law steps, of flagWorld]
    by (simp add: Let_def)
  have "\<not> isEnabled flagDOMEnv (ext (prepareForCommit flagDOMEnv flagWorld))"
    using all[rule_format, of 0] by simp
  moreover have "\<not> isEnabled flagDOMEnv
         (ext (between [\<lambda>w. w\<lparr>warned := True\<rparr>] (prepareForCommit flagDOMEnv flagWorld)))"
    using all[rule_format, of 1] by simp
  ultimately show ?thesis
    using en commit_hooks_round_trip [OF law steps, of flagWorld]
    by (simp add: Let_def)
qed

text \<open>
  Claim C10: for every type and props, \<open>finalizeInitialChildren\<close> returns true if and
  only if the type is one of \<open>button\<close>, \<open>input\<close>, \<open>select\<close> and \<open>textarea\<close> and
  \<open>props.autoFocus\<close> is truthy; and \<open>commitMount\<close>, whatever type and props it is given,
  calls \<open>focus\<close> on the instance and does nothing else.
\<close>

theorem autofocus_deferred_mount:
  "(fst (finalizeInitialChildren D domElement type props rootContainerInstance w) \<longleftrightarrow>
      type \<in> {''button'', ''input'', ''select'', ''textarea''} \<and> truthy (autoFocus props))
   \<and> commitMount domElement type' props' handle s =
       \<lparr>world = world s, calls = calls s @ [DOMFocus domElement]\<rparr>"
  by (auto simp: finalizeInitialChildren_def shouldAutoFocusHostComponent_def Let_def
        commitMount_def emit_def)

end
